theory Spec2Isabelle
  imports Complex_Main
begin

section \<open>JavaScript values that the code throws and inspects\<close>

text \<open>
  The code only ever looks at a thrown value through \<open>error.message\<close>. Three kinds of
  value behave differently under that property access: \<open>undefined\<close> (and \<open>null\<close>), on
  which the access itself raises a TypeError; a value without a \<open>message\<close> property
  (a string primitive, for instance), on which it yields \<open>undefined\<close>; and an Error
  object, on which it yields the message string.
\<close>

datatype jsval = JUndefined | JString string | JError string

definition typeError_message :: jsval where
  "typeError_message =
     JError (''Cannot read properties of undefined (reading '' @ [CHR 0x27] @ ''message''
             @ [CHR 0x27] @ '')'')"

text \<open>\<open>v.message\<close>: \<open>Inl\<close> is the TypeError raised by the access.\<close>

fun get_message :: "jsval \<Rightarrow> jsval + jsval" where
  "get_message JUndefined = Inl typeError_message"
| "get_message (JString s) = Inr JUndefined"
| "get_message (JError m) = Inr (JString m)"

section \<open>Confirmation waiter\<close>

text \<open>
  \<open>web3.eth.getTransactionReceipt\<close> rejects (a failed read), resolves to \<open>null\<close> (not
  yet mined) or resolves to a receipt whose \<open>status\<close> is true or false.
\<close>

record receipt =
  status :: bool

datatype poll = ReadError jsval | NoReceipt | Receipt receipt

definition CONFIRMATION_ATTEMPTS :: int where "CONFIRMATION_ATTEMPTS = 20"
definition RETRY_COUNT :: int where "RETRY_COUNT = 3"

definition onChainFailure :: "string \<Rightarrow> jsval" where
  "onChainFailure txHash = JError (''Transaction '' @ txHash @ '' failed on-chain'')"

definition confirmationTimeout :: "string \<Rightarrow> jsval" where
  "confirmationTimeout txHash = JError (''Transaction confirmation timeout: '' @ txHash)"

text \<open>
  The body of the inner \<open>try\<close> of \<open>waitForConfirmation\<close> on one poll response:
  \<open>Inr (Some r)\<close> is \<open>return receipt\<close>, \<open>Inr None\<close> falls out of the \<open>try\<close>, and
  \<open>Inl e\<close> is a value thrown inside it (the rejected read, or the on-chain-failure
  error of the \<open>else if\<close> branch).
\<close>

definition pollOnce :: "string \<Rightarrow> poll \<Rightarrow> jsval + receipt option" where
  "pollOnce txHash p =
     (case p of
        ReadError e \<Rightarrow> Inl e
      | NoReceipt \<Rightarrow> Inr None
      | Receipt r \<Rightarrow> (if status r then Inr (Some r) else Inl (onChainFailure txHash)))"

text \<open>
  The inner \<open>while\<close> loop. \<open>rcpt k\<close> is the ledger's answer to the \<open>k\<close>-th read of this
  call, \<open>k\<close> counts the reads done so far. The inner \<open>catch\<close> only logs, so a value
  thrown by \<open>pollOnce\<close> leads to \<open>attempts++\<close> like a missing receipt does. Leaving the
  loop throws the timeout error.
\<close>

function pollLoop :: "(nat \<Rightarrow> poll) \<Rightarrow> string \<Rightarrow> int \<Rightarrow> int \<Rightarrow> nat \<Rightarrow> (jsval + receipt) \<times> nat" where
  "pollLoop rcpt txHash maxAttempts attempts k =
     (if attempts < maxAttempts then
        (case pollOnce txHash (rcpt k) of
           Inr (Some r) \<Rightarrow> (Inr r, Suc k)
         | Inr None \<Rightarrow> pollLoop rcpt txHash maxAttempts (attempts + 1) (Suc k)
         | Inl e \<Rightarrow> pollLoop rcpt txHash maxAttempts (attempts + 1) (Suc k))
      else (Inl (confirmationTimeout txHash), k))"
  by pat_completeness auto
termination
  by (relation "measure (\<lambda>(rcpt, txHash, maxAttempts, attempts, k). nat (maxAttempts - attempts))") auto

declare pollLoop.simps [simp del]

text \<open>
  The outer \<open>for\<close> loop over retry rounds. A value thrown by the round is rethrown in
  the last round and dropped otherwise. When \<open>retryCount\<close> is not positive the loop
  body never runs and the function returns \<open>undefined\<close> (\<open>Inr None\<close>).
\<close>

function retryLoop :: "(nat \<Rightarrow> poll) \<Rightarrow> string \<Rightarrow> int \<Rightarrow> int \<Rightarrow> int \<Rightarrow> nat
    \<Rightarrow> (jsval + receipt option) \<times> nat" where
  "retryLoop rcpt txHash maxAttempts retryCount retry k =
     (if retry < retryCount then
        (case pollLoop rcpt txHash maxAttempts 0 k of
           (Inr r, k') \<Rightarrow> (Inr (Some r), k')
         | (Inl e, k') \<Rightarrow>
             (if retry = retryCount - 1 then (Inl e, k')
              else retryLoop rcpt txHash maxAttempts retryCount (retry + 1) k'))
      else (Inr None, k))"
  by pat_completeness auto
termination
  by (relation "measure (\<lambda>(rcpt, txHash, maxAttempts, retryCount, retry, k). nat (retryCount - retry))") auto

declare retryLoop.simps [simp del]

text \<open>The result and the number of receipt reads performed.\<close>

definition alwaysReverted :: "nat \<Rightarrow> poll" where
  "alwaysReverted k = Receipt \<lparr>status = False\<rparr>"

definition waitForConfirmation :: "(nat \<Rightarrow> poll) \<Rightarrow> string \<Rightarrow> int \<Rightarrow> int
    \<Rightarrow> (jsval + receipt option) \<times> nat" where
  "waitForConfirmation rcpt txHash maxAttempts retryCount =
     retryLoop rcpt txHash maxAttempts retryCount 0 0"

section \<open>Numbers\<close>

text \<open>
  The batch size is whatever number the constructor is given; the entry point passes
  the result of \<open>parseInt\<close>, which is an integer or \<open>NaN\<close>. A number is a finite value or
  \<open>NaN\<close>; the infinities are left out. A finite value is the rational it denotes, and
  the operations below are exact on it: the batch loop only adds the batch size to a
  counter that starts at zero and compares it with an integer, which doubles do
  exactly for the integers and the halves used here. Every comparison with \<open>NaN\<close> is
  false, and \<open>+\<close>, \<open>-\<close> and \<open>Math.min\<close> yield \<open>NaN\<close> as soon as one operand is \<open>NaN\<close>.
\<close>

datatype number = Finite rat | NaN

definition fromInt :: "int \<Rightarrow> number" where
  "fromInt n = Finite (of_int n)"

fun lessThan_number :: "number \<Rightarrow> number \<Rightarrow> bool" where
  "lessThan_number (Finite a) (Finite b) = (a < b)"
| "lessThan_number a b = False"

fun plus_number :: "number \<Rightarrow> number \<Rightarrow> number" where
  "plus_number (Finite a) (Finite b) = Finite (a + b)"
| "plus_number a b = NaN"

fun minus_number :: "number \<Rightarrow> number \<Rightarrow> number" where
  "minus_number (Finite a) (Finite b) = Finite (a - b)"
| "minus_number a b = NaN"

fun Math_min :: "number \<Rightarrow> number \<Rightarrow> number" where
  "Math_min (Finite a) (Finite b) = Finite (min a b)"
| "Math_min a b = NaN"

section \<open>The manager and its nonce\<close>

record wallet =
  address :: string
  privateKey :: string

text \<open>
  The fields of \<open>WalletManager\<close> that the modelled methods use. \<open>currentNonce\<close> is \<open>null\<close>
  (\<open>None\<close>) after construction.
\<close>

record manager =
  mainWallet :: wallet
  batchSize :: number
  wallets :: "wallet list"
  currentNonce :: "int option"

definition WalletManager :: "wallet \<Rightarrow> number \<Rightarrow> manager" where
  "WalletManager w bs = \<lparr>mainWallet = w, batchSize = bs, wallets = [], currentNonce = None\<rparr>"

text \<open>
  \<open>getNextNonce\<close>. The argument is the outcome of the one
  \<open>web3.eth.getTransactionCount(address, 'pending')\<close> that the call awaits: a rejection
  is logged and rethrown; a count is stored in \<open>currentNonce\<close>, read back as the
  result, and \<open>currentNonce\<close> is then incremented.
\<close>

definition getNextNonce :: "jsval + int \<Rightarrow> manager \<Rightarrow> (jsval + int) \<times> manager" where
  "getNextNonce fetched m =
     (case fetched of
        Inl e \<Rightarrow> (Inl e, m)
      | Inr c \<Rightarrow>
          (let m1 = m\<lparr>currentNonce := Some c\<rparr>;
               nonce = c;
               m2 = m1\<lparr>currentNonce := map_option (\<lambda>n. n + 1) (currentNonce m1)\<rparr>
           in (Inr nonce, m2)))"

text \<open>
  \<open>n\<close> calls of \<open>getNextNonce\<close> one after the other. \<open>txCount k\<close> is the ledger's answer
  to the \<open>k\<close>-th \<open>getTransactionCount\<close> request it receives, and the second component
  of the state counts the requests made so far.
\<close>

fun nonceCalls :: "(nat \<Rightarrow> jsval + int) \<Rightarrow> nat \<Rightarrow> manager \<times> nat
    \<Rightarrow> (jsval + int) list \<times> (manager \<times> nat)" where
  "nonceCalls txCount 0 s = ([], s)"
| "nonceCalls txCount (Suc n) (m, fetches) =
     (case getNextNonce (txCount fetches) m of
        (v, m') \<Rightarrow>
          (case nonceCalls txCount n (m', Suc fetches) of
             (vs, s') \<Rightarrow> (v # vs, s')))"

definition steadyCount :: "nat \<Rightarrow> jsval + int" where
  "steadyCount k = Inr 7"

definition sourceWallet :: wallet where
  "sourceWallet = \<lparr>address = ''0xSOURCE'', privateKey = ''0xKEY''\<rparr>"

section \<open>Funding tasks interleaved at their suspension points\<close>

text \<open>
  The funding tasks of \<open>processBatch\<close> run on one event loop and interleave only at
  their \<open>await\<close>s. As far as the nonce is concerned a task is in one of five states:
  not started (queued in the limiter); suspended in \<open>getNextNonce\<close> at
  \<open>await getTransactionCount\<close>; resumed, holding the nonce it was given and not yet
  through \<open>sendSignedTransaction\<close>; submitted and waiting for its confirmation; and
  settled, with the nonce it was given if it got that far.
\<close>

datatype task = Queued | Fetching | Holding int | Submitted int | Settled "int option"

record sys =
  tasks :: "task list"
  mgr :: manager
  pendingCount :: int

datatype event = Start nat | Resume nat | Reject nat | Submit nat | Settle nat

fun inFlight :: "task \<Rightarrow> bool" where
  "inFlight Queued = False"
| "inFlight (Settled n) = False"
| "inFlight t = True"

definition running :: "task list \<Rightarrow> nat" where
  "running ts = length (filter inFlight ts)"

text \<open>
  \<open>Start i\<close>: the limiter lets task \<open>i\<close> run while fewer than \<open>limit\<close> tasks are in
  flight; the task runs up to its first \<open>await\<close>.
  \<open>Resume i\<close>: the ledger answers the request of task \<open>i\<close> with the number of
  transactions of the source account it has seen so far, and the rest of
  \<open>getNextNonce\<close> runs without suspension.
  \<open>Reject i\<close>: the request of task \<open>i\<close> is rejected instead; the task's handler
  returns its failure object and the task settles without a nonce.
  \<open>Submit i\<close>: the transaction of task \<open>i\<close> reaches the ledger, which counts it when
  it carries the next expected nonce.
  \<open>Settle i\<close>: task \<open>i\<close>, holding a nonce or submitted, returns its object (signing or
  sending failed, or the wait for the confirmation ended) and frees its place in the
  limiter.
  An event that is not enabled yields \<open>None\<close>.
\<close>

definition step :: "nat \<Rightarrow> event \<Rightarrow> sys \<Rightarrow> sys option" where
  "step limit ev s =
     (case ev of
        Start i \<Rightarrow>
          (if i < length (tasks s) \<and> tasks s ! i = Queued \<and> running (tasks s) < limit
           then Some (s\<lparr>tasks := (tasks s)[i := Fetching]\<rparr>) else None)
      | Resume i \<Rightarrow>
          (if i < length (tasks s) \<and> tasks s ! i = Fetching
           then (case getNextNonce (Inr (pendingCount s)) (mgr s) of
                   (Inr nonce, m') \<Rightarrow> Some (s\<lparr>tasks := (tasks s)[i := Holding nonce], mgr := m'\<rparr>)
                 | (Inl e, m') \<Rightarrow> None)
           else None)
      | Reject i \<Rightarrow>
          (if i < length (tasks s) \<and> tasks s ! i = Fetching
           then Some (s\<lparr>tasks := (tasks s)[i := Settled None]\<rparr>) else None)
      | Submit i \<Rightarrow>
          (if i < length (tasks s)
           then (case tasks s ! i of
                   Holding nonce \<Rightarrow>
                     Some (s\<lparr>tasks := (tasks s)[i := Submitted nonce],
                             pendingCount := (if nonce = pendingCount s then pendingCount s + 1
                                              else pendingCount s)\<rparr>)
                 | _ \<Rightarrow> None)
           else None)
      | Settle i \<Rightarrow>
          (if i < length (tasks s)
           then (case tasks s ! i of
                   Holding nonce \<Rightarrow> Some (s\<lparr>tasks := (tasks s)[i := Settled (Some nonce)]\<rparr>)
                 | Submitted nonce \<Rightarrow> Some (s\<lparr>tasks := (tasks s)[i := Settled (Some nonce)]\<rparr>)
                 | _ \<Rightarrow> None)
           else None))"

fun run :: "nat \<Rightarrow> event list \<Rightarrow> sys \<Rightarrow> sys option" where
  "run limit [] s = Some s"
| "run limit (ev # evs) s = (case step limit ev s of None \<Rightarrow> None | Some s' \<Rightarrow> run limit evs s')"

fun issuedNonce :: "task \<Rightarrow> int option" where
  "issuedNonce (Holding n) = Some n"
| "issuedNonce (Submitted n) = Some n"
| "issuedNonce (Settled n) = n"
| "issuedNonce _ = None"

definition issued :: "sys \<Rightarrow> int list" where
  "issued s = List.map_filter issuedNonce (tasks s)"

definition CONCURRENT_TRANSACTIONS :: nat where "CONCURRENT_TRANSACTIONS = 5"

text \<open>A batch of two funding tasks on a source account with five transactions so far.\<close>

definition twoTasks :: sys where
  "twoTasks = \<lparr>tasks = [Queued, Queued], mgr = WalletManager sourceWallet (fromInt 50),
                pendingCount = 5\<rparr>"

section \<open>Ether units\<close>

text \<open>
  \<open>web3.utils.fromWei(_, 'ether')\<close> and \<open>web3.utils.toWei(_, 'ether')\<close> belong to the
  web3 library, not to this repository; they are written here after the library's unit
  conversion, on which \<open>checkMainBalance\<close> and \<open>processBatch\<close> rely: \<open>fromWei\<close> turns
  a number of wei into a decimal string of ether without trailing zeros, \<open>toWei\<close>
  parses a decimal string of ether and throws on anything that is not one number with
  at most eighteen decimals.
\<close>

definition digitChar :: "nat \<Rightarrow> char" where
  "digitChar d = ''0123456789'' ! d"

function showNat :: "nat \<Rightarrow> string" where
  "showNat n = (if n < 10 then [digitChar n] else showNat (n div 10) @ [digitChar (n mod 10)])"
  by pat_completeness auto
termination
  by (relation "measure id") auto

declare showNat.simps [simp del]

definition isDigit :: "char \<Rightarrow> bool" where
  "isDigit c = (c \<in> set ''0123456789'')"

definition readNat :: "string \<Rightarrow> nat" where
  "readNat s = foldl (\<lambda>a c. 10 * a + (of_char c - 48)) 0 s"

text \<open>\<open>String.prototype.split\<close> on a one-character separator.\<close>

fun split :: "char \<Rightarrow> string \<Rightarrow> string list" where
  "split c [] = [[]]"
| "split c (x # xs) =
     (if x = c then [] # split c xs
      else (case split c xs of y # ys \<Rightarrow> (x # y) # ys | [] \<Rightarrow> [[x]]))"

definition ether :: nat where "ether = 10 ^ 18"

function padLeft :: "nat \<Rightarrow> string \<Rightarrow> string" where
  "padLeft n s = (if length s < n then padLeft n (CHR ''0'' # s) else s)"
  by pat_completeness auto
termination
  by (relation "measure (\<lambda>(n, s). n - length s)") auto

function padRight :: "nat \<Rightarrow> string \<Rightarrow> string" where
  "padRight n s = (if length s < n then padRight n (s @ ''0'') else s)"
  by pat_completeness auto
termination
  by (relation "measure (\<lambda>(n, s). n - length s)") auto

declare padLeft.simps [simp del] padRight.simps [simp del]

definition stripZeros :: "string \<Rightarrow> string" where
  "stripZeros s = (if list_all (\<lambda>c. c = CHR ''0'') s then ''0''
                   else rev (dropWhile (\<lambda>c. c = CHR ''0'') (rev s)))"

definition fromWei :: "int \<Rightarrow> string" where
  "fromWei wei =
     (let negative = wei < 0;
          w = nat \<bar>wei\<bar>;
          fraction = stripZeros (padLeft 18 (showNat (w mod ether)));
          whole = showNat (w div ether);
          v = whole @ (if fraction = ''0'' then [] else ''.'' @ fraction)
      in if negative then ''-'' @ v else v)"

text \<open>The library accepts a string that matches \<open>^-?[0-9.]+$\<close>.\<close>

definition numberMatches :: "string \<Rightarrow> bool" where
  "numberMatches s =
     (let body = (if take 1 s = ''-'' then drop 1 s else s)
      in body \<noteq> [] \<and> list_all (\<lambda>c. isDigit c \<or> c = CHR ''.'') body)"

definition toWei :: "string \<Rightarrow> jsval + int" where
  "toWei etherInput =
     (if \<not> numberMatches etherInput then
        Inl (JError (''while converting number to string, invalid number value ''
                     @ [CHR 0x27] @ etherInput @ [CHR 0x27]
                     @ '', should be a number matching (^-?[0-9.]+).''))
      else
        (let negative = (take 1 etherInput = ''-'');
             e = (if negative then drop 1 etherInput else etherInput)
         in if e = ''.'' then
              Inl (JError (''[ethjs-unit] while converting number '' @ etherInput
                           @ '' to wei, invalid value''))
            else
              (let comps = split CHR ''.'' e
               in if length comps > 2 then
                    Inl (JError (''[ethjs-unit] while converting number '' @ etherInput
                                 @ '' to wei,  too many decimal points''))
                  else
                    (let whole0 = comps ! 0;
                         fraction0 = (if length comps = 2 then comps ! 1 else []);
                         whole = (if whole0 = [] then ''0'' else whole0);
                         fraction = (if fraction0 = [] then ''0'' else fraction0)
                     in if length fraction > 18 then
                          Inl (JError (''[ethjs-unit] while converting number '' @ etherInput
                                       @ '' to wei, too many decimal places''))
                        else
                          (let wei = int (readNat whole * ether + readNat (padRight 18 fraction))
                           in Inr (if negative then - wei else wei))))))"

section \<open>Amounts\<close>

text \<open>
  \<open>fundAmount\<close> is a JavaScript number, an IEEE double. The code never computes with
  it beyond the four expressions below, and hands each result on as a decimal string;
  the amount is therefore represented by what these expressions yield:
  \<open>gtZero\<close> is \<open>typeof fundAmount === 'number' && fundAmount > 0\<close>,
  \<open>toString\<close> is \<open>fundAmount.toString()\<close>,
  \<open>timesCount n\<close> is the string of \<open>fundAmount * n\<close>, and
  \<open>percentOf p\<close> is \<open>(fundAmount * p / 100).toString()\<close>.
\<close>

record amount =
  gtZero :: bool
  toString :: string
  timesCount :: "int \<Rightarrow> string"
  percentOf :: "int \<Rightarrow> string"

section \<open>Transactions, the node, and the outcome of one task\<close>

datatype nonce_value = NonceNumber int | NonceString string

record tx =
  tx_from :: string
  tx_to :: string
  tx_value :: int
  tx_gas :: int
  tx_gasPrice :: int
  tx_nonce :: nonce_value

definition GAS_LIMIT :: int where "GAS_LIMIT = 21000"

datatype stage = Fund | Return

text \<open>
  The objects that the tasks of \<open>processBatch\<close> return: \<open>success\<close>, \<open>wallet\<close>, \<open>error\<close>
  (absent, that is \<open>undefined\<close>, on success) and \<open>type\<close> (\<open>'fund'\<close> or \<open>'return'\<close>).
\<close>

record outcome =
  success :: bool
  wallet :: wallet
  error :: jsval
  type :: stage

text \<open>
  What the node and the signer answer during one call of \<open>processBatch\<close>. A task is
  identified by its stage and its position in the array it was mapped from; an answer
  may depend on the task that asks and on what it asks. \<open>getTransactionReceipt st i h k\<close>
  is the answer to the \<open>k\<close>-th receipt read of that task. \<open>sendSignedTransaction\<close>
  yields the \<open>transactionHash\<close> of the receipt it resolves to. The limiter decides when
  a task runs, not what it returns once its answers are fixed, and \<open>Promise.all\<close> keeps
  the outcomes in task order; so a stage is the list of its tasks' outcomes.
\<close>

record node =
  getGasPrice :: "jsval + int"
  getTransactionCount :: "nat \<Rightarrow> jsval + int"
  signTransaction :: "stage \<Rightarrow> nat \<Rightarrow> tx \<Rightarrow> string \<Rightarrow> jsval + string"
  sendSignedTransaction :: "stage \<Rightarrow> nat \<Rightarrow> string \<Rightarrow> jsval + string"
  getTransactionReceipt :: "stage \<Rightarrow> nat \<Rightarrow> string \<Rightarrow> nat \<Rightarrow> poll"

text \<open>The three awaited calls that both kinds of task make on their transaction.\<close>

definition signSendConfirm :: "node \<Rightarrow> stage \<Rightarrow> nat \<Rightarrow> tx \<Rightarrow> string \<Rightarrow> jsval + receipt option" where
  "signSendConfirm web3 st i t key =
     (case signTransaction web3 st i t key of
        Inl e \<Rightarrow> Inl e
      | Inr rawTransaction \<Rightarrow>
          (case sendSignedTransaction web3 st i rawTransaction of
             Inl e \<Rightarrow> Inl e
           | Inr transactionHash \<Rightarrow>
               fst (waitForConfirmation (getTransactionReceipt web3 st i transactionHash)
                      transactionHash CONFIRMATION_ATTEMPTS RETRY_COUNT)))"

text \<open>
  The \<open>try\<close>/\<open>catch\<close> of a task: the success object, or, in the handler, the failure
  object with \<open>error: error.message\<close>. Reading \<open>message\<close> off a thrown \<open>undefined\<close>
  throws out of the handler and rejects the task.
\<close>

definition settle :: "stage \<Rightarrow> wallet \<Rightarrow> jsval + 'a \<Rightarrow> jsval + outcome" where
  "settle st w r =
     (case r of
        Inr x \<Rightarrow> Inr \<lparr>success = True, wallet = w, error = JUndefined, type = st\<rparr>
      | Inl e \<Rightarrow>
          (case get_message e of
             Inl t \<Rightarrow> Inl t
           | Inr msg \<Rightarrow> Inr \<lparr>success = False, wallet = w, error = msg, type = st\<rparr>))"

definition fundTx :: "manager \<Rightarrow> int \<Rightarrow> int \<Rightarrow> int \<Rightarrow> wallet \<Rightarrow> tx" where
  "fundTx m gasPrice fundValue nonce w =
     \<lparr>tx_from = address (mainWallet m), tx_to = address w, tx_value = fundValue,
      tx_gas = GAS_LIMIT, tx_gasPrice = gasPrice, tx_nonce = NonceNumber nonce\<rparr>"

text \<open>
  A funding task. The value that \<open>getNextNonce\<close> returns does not depend on the
  manager's state (lemma \<open>getNextNonce_result\<close>), and nothing else in the task reads
  \<open>currentNonce\<close>, so the state it leaves behind is not threaded through the tasks.
\<close>

definition fundTask :: "node \<Rightarrow> manager \<Rightarrow> int \<Rightarrow> int \<Rightarrow> nat \<Rightarrow> wallet \<Rightarrow> jsval + outcome" where
  "fundTask web3 m gasPrice fundValue i w =
     settle Fund w
       (case fst (getNextNonce (getTransactionCount web3 i) m) of
          Inl e \<Rightarrow> Inl e
        | Inr nonce \<Rightarrow>
            signSendConfirm web3 Fund i (fundTx m gasPrice fundValue nonce w)
              (privateKey (mainWallet m)))"

text \<open>The transaction object of a return task (lines 201 to 211).\<close>

definition returnTx :: "manager \<Rightarrow> int \<Rightarrow> int \<Rightarrow> wallet \<Rightarrow> tx" where
  "returnTx m gasPrice returnValue w =
     (let gasNeeded = GAS_LIMIT * gasPrice;
          actualReturnValue = returnValue - gasNeeded
      in \<lparr>tx_from = address w, tx_to = address (mainWallet m), tx_value = actualReturnValue,
          tx_gas = GAS_LIMIT, tx_gasPrice = gasPrice, tx_nonce = NonceString ''0''\<rparr>)"

definition returnTask :: "node \<Rightarrow> manager \<Rightarrow> int \<Rightarrow> int \<Rightarrow> nat \<Rightarrow> wallet \<Rightarrow> jsval + outcome" where
  "returnTask web3 m gasPrice returnValue j w =
     settle Return w
       (signSendConfirm web3 Return j (returnTx m gasPrice returnValue w) (privateKey w))"

text \<open>
  \<open>Promise.all\<close> over tasks that have settled: the values in task order, or a
  rejection. The tasks of \<open>processBatch\<close> can only reject with one and the same
  TypeError (lemma \<open>settle_rejects\<close>), so it does not matter which rejection is taken;
  this takes the first in task order.
\<close>

fun promiseAll :: "(jsval + 'a) list \<Rightarrow> jsval + 'a list" where
  "promiseAll [] = Inr []"
| "promiseAll (Inl e # ps) = Inl e"
| "promiseAll (Inr x # ps) = (case promiseAll ps of Inl e \<Rightarrow> Inl e | Inr xs \<Rightarrow> Inr (x # xs))"

definition fundStage :: "node \<Rightarrow> manager \<Rightarrow> int \<Rightarrow> int \<Rightarrow> wallet list \<Rightarrow> jsval + outcome list" where
  "fundStage web3 m gasPrice fundValue ws =
     promiseAll (map (\<lambda>(i, w). fundTask web3 m gasPrice fundValue i w) (enumerate 0 ws))"

definition returnStage :: "node \<Rightarrow> manager \<Rightarrow> int \<Rightarrow> int \<Rightarrow> wallet list \<Rightarrow> jsval + outcome list" where
  "returnStage web3 m gasPrice returnValue ws =
     promiseAll (map (\<lambda>(j, w). returnTask web3 m gasPrice returnValue j w) (enumerate 0 ws))"

text \<open>
  \<open>processBatch\<close>. The outer handler logs \<open>error.message\<close>, which throws on a thrown
  \<open>undefined\<close>, and rethrows the error otherwise.
\<close>

definition processBatch :: "node \<Rightarrow> manager \<Rightarrow> wallet list \<Rightarrow> amount \<Rightarrow> int
    \<Rightarrow> jsval + outcome list \<times> outcome list" where
  "processBatch web3 m ws fundAmount returnPercentage =
     (case
        (case getGasPrice web3 of
           Inl e \<Rightarrow> Inl e
         | Inr gasPrice \<Rightarrow>
             (case toWei (toString fundAmount) of
                Inl e \<Rightarrow> Inl e
              | Inr fundValue \<Rightarrow>
                  (case toWei (percentOf fundAmount returnPercentage) of
                     Inl e \<Rightarrow> Inl e
                   | Inr returnValue \<Rightarrow>
                       (case fundStage web3 m gasPrice fundValue ws of
                          Inl e \<Rightarrow> Inl e
                        | Inr fundResults \<Rightarrow>
                            (let successfullyFunded = map wallet (filter success fundResults)
                             in case returnStage web3 m gasPrice returnValue successfullyFunded of
                                  Inl e \<Rightarrow> Inl e
                                | Inr returnResults \<Rightarrow> Inr (fundResults, returnResults))))))
      of
        Inr r \<Rightarrow> Inr r
      | Inl e \<Rightarrow> (case get_message e of Inl t \<Rightarrow> Inl t | Inr msg \<Rightarrow> Inl e))"

section \<open>The run controller\<close>

text \<open>
  \<open>createWallets\<close>. \<open>create i\<close> is what the \<open>i\<close>-th \<open>web3.eth.accounts.create()\<close> of the
  call yields. A throw leaves the loop and the method before \<open>this.wallets\<close> is
  touched.
\<close>

function createLoop :: "(nat \<Rightarrow> jsval + wallet) \<Rightarrow> number \<Rightarrow> nat \<Rightarrow> wallet list
    \<Rightarrow> jsval + wallet list" where
  "createLoop create count i newWallets =
     (if lessThan_number (Finite (of_nat i)) count then
        (case create i of
           Inl e \<Rightarrow> Inl e
         | Inr w \<Rightarrow> createLoop create count (Suc i) (newWallets @ [w]))
      else Inr newWallets)"
  by pat_completeness auto
termination
proof (relation "measure (\<lambda>(create, count, i, newWallets).
                  case count of Finite q \<Rightarrow> nat \<lceil>q\<rceil> - i | NaN \<Rightarrow> 0)")
  show "wf (measure (\<lambda>(create :: nat \<Rightarrow> jsval + wallet, count, i, newWallets :: wallet list).
                  case count of Finite q \<Rightarrow> nat \<lceil>q\<rceil> - i | NaN \<Rightarrow> 0))"
    by simp
next
  fix create :: "nat \<Rightarrow> jsval + wallet" and count i and newWallets :: "wallet list" and w
  assume "lessThan_number (Finite (of_nat i)) count"
  then obtain q where q: "count = Finite q" and lt: "of_nat i < q"
    by (cases count) auto
  from lt have "int i < \<lceil>q\<rceil>"
    by (simp add: less_ceiling_iff)
  then have "i < nat \<lceil>q\<rceil>" by linarith
  with q show "((create, count, Suc i, newWallets @ [w]), (create, count, i, newWallets))
          \<in> measure (\<lambda>(create, count, i, newWallets).
                  case count of Finite q \<Rightarrow> nat \<lceil>q\<rceil> - i | NaN \<Rightarrow> 0)"
    by simp
qed

declare createLoop.simps [simp del]

definition createWallets :: "(nat \<Rightarrow> jsval + wallet) \<Rightarrow> manager \<Rightarrow> number
    \<Rightarrow> jsval + wallet list \<times> manager" where
  "createWallets create m count =
     (case createLoop create count 0 [] of
        Inl e \<Rightarrow> Inl e
      | Inr newWallets \<Rightarrow> Inr (newWallets, m\<lparr>wallets := wallets m @ newWallets\<rparr>))"

text \<open>
  \<open>checkMainBalance\<close>. The first argument is what \<open>web3.eth.getBalance\<close> yields, the
  second is \<open>requiredAmount.toString()\<close>.
\<close>

definition checkMainBalance :: "jsval + int \<Rightarrow> string \<Rightarrow> jsval + bool" where
  "checkMainBalance fetched requiredAmount =
     (case fetched of
        Inl e \<Rightarrow> Inl e
      | Inr balance \<Rightarrow>
          (case toWei requiredAmount of
             Inl e \<Rightarrow> Inl e
           | Inr requiredWei \<Rightarrow>
               (if balance < requiredWei then
                  Inl (JError (''Insufficient balance. Required: '' @ requiredAmount
                               @ '' ETH, Available: '' @ fromWei balance @ '' ETH''))
                else Inr True)))"

text \<open>
  The report. An entry of \<open>failed\<close> is the object \<open>{address, error, stage}\<close>; its fields
  are prefixed here, since \<open>address\<close> and \<open>error\<close> are fields of other objects too.
\<close>

record failure =
  failed_address :: string
  failed_error :: jsval
  failed_stage :: string

record results =
  successful :: "string list"
  failed :: "failure list"
  created :: int

text \<open>
  The two \<open>forEach\<close> loops over the outcomes of a batch. Both store
  \<open>result.error.message\<close>; the property access throws when \<open>result.error\<close> is
  \<open>undefined\<close>.
\<close>

fun trackFunding :: "outcome list \<Rightarrow> results \<Rightarrow> jsval + results" where
  "trackFunding [] res = Inr res"
| "trackFunding (result # rest) res =
     (if \<not> success result then
        (case get_message (error result) of
           Inl t \<Rightarrow> Inl t
         | Inr msg \<Rightarrow>
             trackFunding rest
               (res\<lparr>failed := failed res @
                  [\<lparr>failed_address = address (wallet result), failed_error = msg,
                    failed_stage = ''funding''\<rparr>]\<rparr>))
      else trackFunding rest res)"

fun trackReturns :: "outcome list \<Rightarrow> results \<Rightarrow> jsval + results" where
  "trackReturns [] res = Inr res"
| "trackReturns (result # rest) res =
     (if \<not> success result then
        (case get_message (error result) of
           Inl t \<Rightarrow> Inl t
         | Inr msg \<Rightarrow>
             trackReturns rest
               (res\<lparr>failed := failed res @
                  [\<lparr>failed_address = address (wallet result), failed_error = msg,
                    failed_stage = ''returning''\<rparr>]\<rparr>))
      else trackReturns rest (res\<lparr>successful := successful res @ [address (wallet result)]\<rparr>))"

text \<open>
  What the outside world answers during one run: the gas price and the balance of the
  pre-flight check, the accounts created in the \<open>n\<close>-th batch, and the node during the
  \<open>n\<close>-th call of \<open>processBatch\<close>. \<open>unsafeGasUnits\<close> is what the library's \<open>toBN\<close> makes
  of the double \<open>gasLimit * 2 * walletCount\<close> when that product lies beyond the integers
  a double holds exactly (a rounded value, or a throw).
\<close>

record world =
  preflightGasPrice :: "jsval + int"
  getBalance :: "jsval + int"
  unsafeGasUnits :: "int \<Rightarrow> jsval + int"
  accountsCreate :: "nat \<Rightarrow> nat \<Rightarrow> jsval + wallet"
  batchNode :: "nat \<Rightarrow> node"

text \<open>
  The batch loop. With a finite batch size that is not positive \<open>i\<close> never reaches
  \<open>walletCount\<close>, so the loop is given fuel: \<open>None\<close> stands for a loop that has not
  returned within \<open>fuel\<close> iterations. \<open>n\<close> counts the iterations. The last argument is
  not in the source: it collects the \<open>returnResults\<close> of the batches processed so far,
  which the report is later compared with.
\<close>

fun batchLoop :: "nat \<Rightarrow> world \<Rightarrow> amount \<Rightarrow> int \<Rightarrow> nat \<Rightarrow> number \<Rightarrow> manager \<Rightarrow> results
    \<Rightarrow> outcome list \<Rightarrow> (jsval + results \<times> outcome list) option" where
  "batchLoop 0 W fundAmount walletCount n i m res history = None"
| "batchLoop (Suc fuel) W fundAmount walletCount n i m res history =
     (if lessThan_number i (fromInt walletCount) then
        (let batchSize' = Math_min (batchSize m) (minus_number (fromInt walletCount) i)
         in case createWallets (accountsCreate W n) m batchSize' of
              Inl e \<Rightarrow> Some (Inl e)
            | Inr (newWallets, m') \<Rightarrow>
                (let res1 = res\<lparr>created := created res + int (length newWallets)\<rparr>
                 in case processBatch (batchNode W n) m' newWallets fundAmount 95 of
                      Inl e \<Rightarrow> Some (Inl e)
                    | Inr (fundResults, returnResults) \<Rightarrow>
                        (case trackFunding fundResults res1 of
                           Inl e \<Rightarrow> Some (Inl e)
                         | Inr res2 \<Rightarrow>
                             (case trackReturns returnResults res2 of
                                Inl e \<Rightarrow> Some (Inl e)
                              | Inr res3 \<Rightarrow>
                                  batchLoop fuel W fundAmount walletCount (Suc n)
                                    (plus_number i (batchSize m)) m' res3
                                    (history @ returnResults)))))
      else Some (Inr (res, history)))"

text \<open>
  The pre-flight computation. The product \<open>gasLimit * 2 * walletCount\<close> is a product of
  doubles, exact up to \<open>Number.MAX_SAFE_INTEGER\<close>; beyond that the world says what
  \<open>toBN\<close> makes of it. \<open>estimatedGasCost\<close> is the string that \<open>fromWei\<close> returns, so the
  \<open>+\<close> of \<open>(fundAmount * walletCount) + estimatedGasCost\<close> converts its left operand to
  a string and concatenates.
\<close>

definition MAX_SAFE_INTEGER :: int where "MAX_SAFE_INTEGER = 2 ^ 53 - 1"

text \<open>\<open>web3.utils.toBN(gasLimit * 2 * walletCount)\<close>, with \<open>gasLimit = 21000\<close>.\<close>

definition gasUnits :: "world \<Rightarrow> int \<Rightarrow> jsval + int" where
  "gasUnits W walletCount =
     (if \<bar>21000 * 2 * walletCount\<bar> \<le> MAX_SAFE_INTEGER then Inr (21000 * 2 * walletCount)
      else unsafeGasUnits W walletCount)"

definition estimatedGasCost :: "int \<Rightarrow> int \<Rightarrow> string" where
  "estimatedGasCost gasPrice units = fromWei (gasPrice * units)"

definition totalRequired :: "amount \<Rightarrow> int \<Rightarrow> string \<Rightarrow> string" where
  "totalRequired fundAmount walletCount gasCost = timesCount fundAmount walletCount @ gasCost"

definition tryBody :: "nat \<Rightarrow> world \<Rightarrow> manager \<Rightarrow> int \<Rightarrow> amount
    \<Rightarrow> (jsval + results \<times> outcome list) option" where
  "tryBody fuel W m walletCount fundAmount =
     (case preflightGasPrice W of
        Inl e \<Rightarrow> Some (Inl e)
      | Inr gasPrice \<Rightarrow>
          (case gasUnits W walletCount of
             Inl e \<Rightarrow> Some (Inl e)
           | Inr units \<Rightarrow>
               (case checkMainBalance (getBalance W)
                       (totalRequired fundAmount walletCount (estimatedGasCost gasPrice units)) of
                  Inl e \<Rightarrow> Some (Inl e)
                | Inr ok \<Rightarrow>
                    batchLoop fuel W fundAmount walletCount 0 (fromInt 0) m
                      \<lparr>successful = [], failed = [], created = 0\<rparr> [])))"

text \<open>A value inside a template string.\<close>

fun templateString :: "jsval \<Rightarrow> string" where
  "templateString JUndefined = ''undefined''"
| "templateString (JString s) = s"
| "templateString (JError m) = ''Error: '' @ m"

text \<open>The handler of \<open>createAndManageWallets\<close>: what it throws for a caught value.\<close>

definition creationFailed :: "jsval \<Rightarrow> jsval" where
  "creationFailed e =
     (case get_message e of
        Inl t \<Rightarrow> t
      | Inr msg \<Rightarrow> JError (''Wallet creation failed: '' @ templateString msg))"

text \<open>
  \<open>createAndManageWallets\<close>, with the history of return outcomes beside the report.
  \<open>walletCount\<close> is an integer, so \<open>Number.isInteger\<close> holds.
\<close>

definition createAndManageWallets_history :: "nat \<Rightarrow> world \<Rightarrow> manager \<Rightarrow> int \<Rightarrow> amount
    \<Rightarrow> (jsval + results \<times> outcome list) option" where
  "createAndManageWallets_history fuel W m walletCount fundAmount =
     (if walletCount \<le> 0 then Some (Inl (JError ''Wallet count must be a positive integer''))
      else if \<not> gtZero fundAmount then Some (Inl (JError ''Fund amount must be a positive number''))
      else (case tryBody fuel W m walletCount fundAmount of
              None \<Rightarrow> None
            | Some (Inl e) \<Rightarrow> Some (Inl (creationFailed e))
            | Some (Inr r) \<Rightarrow> Some (Inr r)))"

definition createAndManageWallets :: "nat \<Rightarrow> world \<Rightarrow> manager \<Rightarrow> int \<Rightarrow> amount
    \<Rightarrow> (jsval + results) option" where
  "createAndManageWallets fuel W m walletCount fundAmount =
     map_option (map_sum id fst) (createAndManageWallets_history fuel W m walletCount fundAmount)"

section \<open>The return stage of the older script\<close>

text \<open>
  The repository holds an older copy of the script (the second unnamed source file)
  whose \<open>getNextNonce\<close> fetches the count only while \<open>currentNonce\<close> is \<open>null\<close> and
  returns \<open>this.currentNonce++\<close>, and whose return tasks take their nonce from it. The
  argument \<open>fetched\<close> is what the fetch yields if one is made.
\<close>

definition getNextNonce_older :: "jsval + int \<Rightarrow> manager \<Rightarrow> (jsval + int) \<times> manager" where
  "getNextNonce_older fetched m =
     (case currentNonce m of
        None \<Rightarrow>
          (case fetched of
             Inl e \<Rightarrow> (Inl e, m)
           | Inr c \<Rightarrow> (Inr c, m\<lparr>currentNonce := Some (c + 1)\<rparr>))
      | Some n \<Rightarrow> (Inr n, m\<lparr>currentNonce := Some (n + 1)\<rparr>))"

text \<open>
  Its return transaction: the whole \<open>returnValue\<close>, gas \<open>"210000"\<close>, and the nonce
  handed in.
\<close>

definition returnTx_older :: "manager \<Rightarrow> int \<Rightarrow> int \<Rightarrow> int \<Rightarrow> wallet \<Rightarrow> tx" where
  "returnTx_older m gasPrice returnValue nonce w =
     \<lparr>tx_from = address w, tx_to = address (mainWallet m), tx_value = returnValue,
      tx_gas = 210000, tx_gasPrice = gasPrice, tx_nonce = NonceNumber nonce\<rparr>"

text \<open>Its handler stores the caught value itself: \<open>{success: false, wallet, error, type}\<close>.\<close>

definition settle_older :: "stage \<Rightarrow> wallet \<Rightarrow> jsval + 'a \<Rightarrow> outcome" where
  "settle_older st w r =
     (case r of
        Inr x \<Rightarrow> \<lparr>success = True, wallet = w, error = JUndefined, type = st\<rparr>
      | Inl e \<Rightarrow> \<lparr>success = False, wallet = w, error = e, type = st\<rparr>)"

text \<open>
  A return task of the older script, with the manager it leaves behind. Its
  \<open>waitForConfirmation\<close> differs from the one above in the text of the error that the
  inner handler swallows, and in nothing that leaves the function.
\<close>

definition returnTask_older :: "node \<Rightarrow> manager \<Rightarrow> int \<Rightarrow> int \<Rightarrow> nat \<Rightarrow> wallet
    \<Rightarrow> outcome \<times> manager" where
  "returnTask_older web3 m gasPrice returnValue j w =
     (case getNextNonce_older (getTransactionCount web3 j) m of
        (Inl e, m') \<Rightarrow> (settle_older Return w (Inl e :: jsval + receipt option), m')
      | (Inr nonce, m') \<Rightarrow>
          (settle_older Return w
             (signSendConfirm web3 Return j (returnTx_older m gasPrice returnValue nonce w)
                (privateKey w)),
           m'))"

text \<open>
  Its return stage. The tasks are created in array order, and each runs up to its
  first suspension when it is created; once \<open>currentNonce\<close> is set, \<open>getNextNonce\<close>
  reaches \<open>this.currentNonce++\<close> without suspending. So the nonces are handed out in
  array order, which is the order in which the manager is threaded here. (The counter
  is set whenever there is a funded wallet: its funding task got a nonce.)
\<close>

fun returnStage_older :: "node \<Rightarrow> manager \<Rightarrow> int \<Rightarrow> int \<Rightarrow> nat \<Rightarrow> wallet list
    \<Rightarrow> outcome list \<times> manager" where
  "returnStage_older web3 m gasPrice returnValue j [] = ([], m)"
| "returnStage_older web3 m gasPrice returnValue j (w # ws) =
     (case returnTask_older web3 m gasPrice returnValue j w of
        (r, m') \<Rightarrow>
          (case returnStage_older web3 m' gasPrice returnValue (Suc j) ws of
             (rs, m'') \<Rightarrow> (r # rs, m'')))"

section \<open>Notions used in the statements\<close>

text \<open>
  A transaction goes through for a task: the signer signs it, the node takes the
  signed transaction, and the wait for its confirmation returns.
\<close>

definition accepted :: "node \<Rightarrow> stage \<Rightarrow> nat \<Rightarrow> tx \<Rightarrow> string \<Rightarrow> bool" where
  "accepted web3 st i t key =
     (case signTransaction web3 st i t key of
        Inl e \<Rightarrow> False
      | Inr rawTransaction \<Rightarrow>
          (case sendSignedTransaction web3 st i rawTransaction of
             Inl e \<Rightarrow> False
           | Inr transactionHash \<Rightarrow>
               (case fst (waitForConfirmation
                            (getTransactionReceipt web3 st i transactionHash)
                            transactionHash CONFIRMATION_ATTEMPTS RETRY_COUNT) of
                  Inl e \<Rightarrow> False
                | Inr r \<Rightarrow> True)))"

text \<open>
  The entry that the tracking loops append to \<open>failed\<close> for an unsuccessful outcome,
  under the stage name given.
\<close>

definition entry :: "string \<Rightarrow> outcome \<Rightarrow> failure" where
  "entry st r = \<lparr>failed_address = address (wallet r),
                 failed_error = (case get_message (error r) of Inr msg \<Rightarrow> msg | Inl t \<Rightarrow> t),
                 failed_stage = st\<rparr>"

text \<open>An outcome whose \<open>error\<close> field is not an Error object.\<close>

definition plain :: "outcome \<Rightarrow> bool" where
  "plain r = (case error r of JError m \<Rightarrow> False | _ \<Rightarrow> True)"




section \<open>Concrete runs\<close>

text \<open>
  The number one as \<open>fundAmount\<close>. For an integer \<open>n\<close> the product \<open>1 * n\<close> prints as
  \<open>n\<close>, and \<open>1 * p / 100\<close> prints as the decimal \<open>p / 100\<close> without trailing zeros.
\<close>

definition oneEther :: amount where
  "oneEther = \<lparr>gtZero = True, toString = ''1'',
               timesCount = (\<lambda>n. fromWei (n * 10 ^ 18)),
               percentOf = (\<lambda>p. fromWei (p * 10 ^ 16))\<rparr>"

definition newAccount :: "nat \<Rightarrow> nat \<Rightarrow> jsval + wallet" where
  "newAccount n i = Inr \<lparr>address = ''0xA'' @ showNat n @ ''-'' @ showNat i,
                         privateKey = ''0xK'' @ showNat n @ ''-'' @ showNat i\<rparr>"

text \<open>
  A node at a gas price of one gwei that confirms every transaction at the first read,
  except that it rejects the funding transaction of task 1 and the return transaction
  of task 0.
\<close>

definition pickyNode :: node where
  "pickyNode =
     \<lparr>getGasPrice = Inr 1000000000,
      getTransactionCount = (\<lambda>i. Inr 5),
      signTransaction = (\<lambda>st i t key. Inr ''0xraw''),
      sendSignedTransaction = (\<lambda>st i raw.
         if st = Fund \<and> i = 1 then Inl (JError ''nonce too low'')
         else if st = Return \<and> i = 0 then Inl (JError ''insufficient funds'')
         else Inr ''0xhash''),
      getTransactionReceipt = (\<lambda>st i h k. Receipt \<lparr>status = True\<rparr>)\<rparr>"

definition richWorld :: world where
  "richWorld = \<lparr>preflightGasPrice = Inr 1000000000, getBalance = Inr (100 * 10 ^ 18),
                unsafeGasUnits = (\<lambda>n. Inl (JError ''invalid number value'')),
                accountsCreate = newAccount, batchNode = (\<lambda>n. pickyNode)\<rparr>"

text \<open>
  A node whose signer writes the nonce into the signed transaction, and which never
  mines a return transaction that does not carry nonce 0: the sender is a fresh
  account. Everything else is confirmed at the first read.
\<close>

definition strictNode :: node where
  "strictNode =
     \<lparr>getGasPrice = Inr 1000000000,
      getTransactionCount = (\<lambda>i. Inr 5),
      signTransaction = (\<lambda>st i t key.
         Inr (''0xraw-nonce-'' @ (case tx_nonce t of
                                    NonceNumber n \<Rightarrow> showNat (nat n)
                                  | NonceString x \<Rightarrow> x))),
      sendSignedTransaction = (\<lambda>st i raw.
         if st = Return \<and> raw \<noteq> ''0xraw-nonce-0''
         then Inl (JError ''Transaction was not mined within 750 seconds'')
         else Inr ''0xhash''),
      getTransactionReceipt = (\<lambda>st i h k. Receipt \<lparr>status = True\<rparr>)\<rparr>"

text \<open>
  The manager of the older script after the funding task of a one-wallet batch: the
  count was fetched as five and nonce five was issued.
\<close>

definition afterFunding :: manager where
  "afterFunding = snd (getNextNonce_older (Inr 5) (WalletManager sourceWallet (fromInt 50)))"

text \<open>The same world with a balance of ten ether.\<close>

definition tenEtherWorld :: world where
  "tenEtherWorld = richWorld\<lparr>getBalance := Inr (10 * 10 ^ 18)\<rparr>"

text \<open>
  The first three accounts that \<open>newAccount\<close> yields in batch 0 and the first of
  batch 1, and what a batch of the first three and the runs below produce.
\<close>

definition account0 :: wallet where
  "account0 = \<lparr>address = ''0xA0-0'', privateKey = ''0xK0-0''\<rparr>"

definition account1 :: wallet where
  "account1 = \<lparr>address = ''0xA0-1'', privateKey = ''0xK0-1''\<rparr>"

definition account2 :: wallet where
  "account2 = \<lparr>address = ''0xA0-2'', privateKey = ''0xK0-2''\<rparr>"

definition account3 :: wallet where
  "account3 = \<lparr>address = ''0xA1-0'', privateKey = ''0xK1-0''\<rparr>"

definition fundResults3 :: "outcome list" where
  "fundResults3 =
     [\<lparr>success = True, wallet = account0, error = JUndefined, type = Fund\<rparr>,
      \<lparr>success = False, wallet = account1, error = JString ''nonce too low'', type = Fund\<rparr>,
      \<lparr>success = True, wallet = account2, error = JUndefined, type = Fund\<rparr>]"

definition returnResults3 :: "outcome list" where
  "returnResults3 =
     [\<lparr>success = False, wallet = account0, error = JString ''insufficient funds'', type = Return\<rparr>,
      \<lparr>success = True, wallet = account2, error = JUndefined, type = Return\<rparr>]"


definition emptyReport :: results where
  "emptyReport = \<lparr>successful = [], failed = [], created = 0\<rparr>"

definition report21 :: results where
  "report21 =
     \<lparr>successful = [],
      failed = [\<lparr>failed_address = ''0xA0-1'', failed_error = JUndefined, failed_stage = ''funding''\<rparr>,
                \<lparr>failed_address = ''0xA0-0'', failed_error = JUndefined, failed_stage = ''returning''\<rparr>,
                \<lparr>failed_address = ''0xA1-0'', failed_error = JUndefined, failed_stage = ''returning''\<rparr>],
      created = 3\<rparr>"

section \<open>Rules for evaluating concrete inputs\<close>

lemmas unit_eval = fromWei_def toWei_def ether_def showNat.simps digitChar_def padLeft.simps
  padRight.simps stripZeros_def numberMatches_def isDigit_def readNat_def

lemmas batch_eval = processBatch_def fundStage_def returnStage_def fundTask_def returnTask_def
  settle_def signSendConfirm_def waitForConfirmation_def retryLoop.simps pollLoop.simps
  pollOnce_def getNextNonce_def fundTx_def returnTx_def CONFIRMATION_ATTEMPTS_def RETRY_COUNT_def
  GAS_LIMIT_def enumerate_eq_zip pickyNode_def oneEther_def

lemmas run_eval = createAndManageWallets_history_def tryBody_def totalRequired_def
  estimatedGasCost_def checkMainBalance_def createWallets_def createLoop.simps
  WalletManager_def sourceWallet_def creationFailed_def richWorld_def tenEtherWorld_def
  newAccount_def gasUnits_def MAX_SAFE_INTEGER_def fromInt_def

section \<open>Properties of the confirmation waiter\<close>

lemma pollLoop_throws_timeout:
  "fst (pollLoop rcpt txHash maxAttempts attempts k) = Inl e \<Longrightarrow> e = confirmationTimeout txHash"
proof (induction rcpt txHash maxAttempts attempts k rule: pollLoop.induct)
  case (1 rcpt txHash maxAttempts attempts k)
  note unfold = pollLoop.simps[of rcpt txHash maxAttempts attempts k]
  show ?case
  proof (cases "attempts < maxAttempts")
    case False
    with "1.prems" unfold show ?thesis by simp
  next
    case True
    show ?thesis
    proof (cases "pollOnce txHash (rcpt k)")
      case (Inl x)
      with True "1.prems" "1.IH" unfold show ?thesis by simp
    next
      case (Inr y)
      show ?thesis
      proof (cases y)
        case None
        with Inr True "1.prems" "1.IH" unfold show ?thesis by simp
      next
        case (Some r)
        with Inr True "1.prems" unfold show ?thesis by simp
      qed
    qed
  qed
qed

text \<open>
  Whatever the ledger answers, the only error \<open>waitForConfirmation\<close> can surface is the
  timeout error: the on-chain-failure error never leaves the function.
\<close>

lemma retryLoop_throws_timeout:
  "fst (retryLoop rcpt txHash maxAttempts retryCount retry k) = Inl e
   \<Longrightarrow> e = confirmationTimeout txHash"
proof (induction rcpt txHash maxAttempts retryCount retry k rule: retryLoop.induct)
  case (1 rcpt txHash maxAttempts retryCount retry k)
  note unfold = retryLoop.simps[of rcpt txHash maxAttempts retryCount retry k]
  show ?case
  proof (cases "retry < retryCount")
    case False
    with "1.prems" unfold show ?thesis by simp
  next
    case True
    obtain res k' where p: "pollLoop rcpt txHash maxAttempts 0 k = (res, k')"
      by (cases "pollLoop rcpt txHash maxAttempts 0 k")
    show ?thesis
    proof (cases res)
      case (Inr r)
      with True p "1.prems" unfold show ?thesis by simp
    next
      case (Inl x)
      have x: "x = confirmationTimeout txHash"
        using pollLoop_throws_timeout[of rcpt txHash maxAttempts 0 k x] p Inl by simp
      show ?thesis
      proof (cases "retry = retryCount - 1")
        case True
        with \<open>retry < retryCount\<close> p Inl x "1.prems" unfold show ?thesis by simp
      next
        case False
        from "1.IH"[OF \<open>retry < retryCount\<close> p[symmetric] Inl False]
        show ?thesis
          using \<open>retry < retryCount\<close> p Inl False "1.prems" unfold by simp
      qed
    qed
  qed
qed

lemma waitForConfirmation_throws_timeout:
  "fst (waitForConfirmation rcpt txHash maxAttempts retryCount) = Inl e
   \<Longrightarrow> e = confirmationTimeout txHash"
  unfolding waitForConfirmation_def by (rule retryLoop_throws_timeout)

text \<open>
  C1. The claim: a poll that observes a receipt with status false ends the call at once
  with the on-chain-failure error, with no further poll and no further retry round.
  The code at a ledger that answers every read with a failed receipt, two attempts and
  two rounds: the error thrown for the failed receipt is caught by the inner handler,
  all four reads are made, and the error surfaced is the timeout.
\<close>

theorem C1_onchain_failure_is_polled_on:
  "waitForConfirmation alwaysReverted ''0xabc'' 2 2
     = (Inl (confirmationTimeout ''0xabc''), 4)
   \<and> confirmationTimeout ''0xabc'' \<noteq> onChainFailure ''0xabc''"
  by (simp add: waitForConfirmation_def retryLoop.simps pollLoop.simps pollOnce_def
      alwaysReverted_def confirmationTimeout_def onChainFailure_def)

section \<open>Properties of the nonce sequencer\<close>

lemma getNextNonce_result: "fst (getNextNonce fetched m) = fetched"
  by (cases fetched) (simp_all add: getNextNonce_def)

lemma getNextNonce_state:
  "currentNonce (snd (getNextNonce (Inr c) m)) = Some (c + 1)"
  by (simp add: getNextNonce_def)

lemma nonceCalls_shape:
  "nonceCalls txCount n (m, f) = (vs, (m', f'))
   \<Longrightarrow> vs = map txCount [f ..< f + n] \<and> f' = f + n"
proof (induction n arbitrary: m f vs m' f')
  case 0
  then show ?case by simp
next
  case (Suc n)
  obtain v m1 where g: "getNextNonce (txCount f) m = (v, m1)"
    by (cases "getNextNonce (txCount f) m")
  obtain ws m2 f2 where r: "nonceCalls txCount n (m1, Suc f) = (ws, (m2, f2))"
    by (cases "nonceCalls txCount n (m1, Suc f)") auto
  from Suc.prems g r have vs: "vs = v # ws" and "m' = m2" and f': "f' = f2"
    by simp_all
  from Suc.IH[OF r] have ws: "ws = map txCount [Suc f ..< Suc f + n]" and f2: "f2 = Suc f + n"
    by simp_all
  have v: "v = txCount f"
    using getNextNonce_result[of "txCount f" m] g by simp
  have "[f ..< f + Suc n] = f # [Suc f ..< Suc f + n]"
    by (simp add: upt_conv_Cons)
  with vs ws v f' f2 show ?case by simp
qed

text \<open>
  C2, as stated: one network fetch on the first call, every later call returns the
  previous value plus one without a fetch. Two calls on a fresh manager, against a
  ledger that reports seven transactions both times, make two fetches and return seven
  twice.
\<close>

theorem C2_counterexample:
  "snd (snd (nonceCalls steadyCount 2 (WalletManager sourceWallet (fromInt 50), 0))) = 2
   \<and> fst (nonceCalls steadyCount 2 (WalletManager sourceWallet (fromInt 50), 0)) = [Inr 7, Inr 7]
   \<and> \<not> (snd (snd (nonceCalls steadyCount 2 (WalletManager sourceWallet (fromInt 50), 0))) = 1
        \<and> fst (nonceCalls steadyCount 2 (WalletManager sourceWallet (fromInt 50), 0)) = [Inr 7, Inr 8])"
  by (simp add: numeral_2_eq_2 getNextNonce_def steadyCount_def WalletManager_def)

text \<open>
  C2, amended: every call of \<open>getNextNonce\<close> makes one network fetch of the source
  account's pending transaction count and returns what that fetch returned (the count,
  or the rejection rethrown); so \<open>n\<close> calls make \<open>n\<close> fetches and return the \<open>n\<close>
  answers of the ledger in order, and the local counter holds the last fetched count
  plus one, which the next call overwrites.
\<close>

theorem C2_fetch_on_every_call:
  "fst (nonceCalls txCount n (m, f)) = map txCount [f ..< f + n]
   \<and> snd (snd (nonceCalls txCount n (m, f))) = f + n
   \<and> fst (getNextNonce fetched m) = fetched
   \<and> currentNonce (snd (getNextNonce (Inr c) m)) = Some (c + 1)"
proof -
  obtain vs m' f' where r: "nonceCalls txCount n (m, f) = (vs, (m', f'))"
    by (cases "nonceCalls txCount n (m, f)") auto
  from nonceCalls_shape[OF r] r show ?thesis
    by (simp add: getNextNonce_result getNextNonce_state)
qed

text \<open>
  C3. The claim: under every interleaving the nonces issued to the funding tasks are
  pairwise distinct and contiguous from the baseline. With two tasks and the limit of
  the configuration, both tasks are started before either request is answered, as the
  limiter does; both requests are answered before either transaction is submitted, and
  both tasks are given nonce five.
\<close>

theorem C3_two_tasks_same_nonce:
  "map_option issued (run CONCURRENT_TRANSACTIONS [Start 0, Start 1, Resume 0, Resume 1] twoTasks)
     = Some [5, 5]
   \<and> \<not> distinct [5, 5 :: int]"
  by (simp add: step_def running_def issued_def twoTasks_def getNextNonce_def
      CONCURRENT_TRANSACTIONS_def List.map_filter_def WalletManager_def)

section \<open>Properties of a batch\<close>

lemma get_message_Inl: "get_message v = Inl t \<Longrightarrow> t = typeError_message"
  by (cases v) simp_all

lemma get_message_Inr: "get_message v = Inr msg \<Longrightarrow> msg = JUndefined \<or> (\<exists>s. v = JError s \<and> msg = JString s)"
  by (cases v) auto

text \<open>A task can only reject with the TypeError of \<open>error.message\<close> on \<open>undefined\<close>.\<close>

lemma settle_rejects: "settle st w r = Inl e \<Longrightarrow> e = typeError_message"
  by (auto simp: settle_def split: sum.splits dest: get_message_Inl)

lemma settle_outcome:
  "settle st w r = Inr out \<Longrightarrow> wallet out = w \<and> type out = st \<and> plain out"
  by (cases r) (auto simp: settle_def plain_def split: sum.splits dest: get_message_Inr)

lemma promiseAll_Inr: "promiseAll ps = Inr xs \<Longrightarrow> ps = map Inr xs"
proof (induction ps arbitrary: xs)
  case Nil
  then show ?case by simp
next
  case (Cons p ps)
  then show ?case
    by (cases p) (auto split: sum.splits)
qed

lemma promiseAll_rejects:
  "promiseAll ps = Inl e \<Longrightarrow> Inl e \<in> set ps"
proof (induction ps)
  case Nil
  then show ?case by simp
next
  case (Cons p ps)
  then show ?case
    by (cases p) (auto split: sum.splits)
qed

lemma settled_tasks:
  "map (\<lambda>(i, w). settle st w (g i w)) (enumerate n ws) = map Inr rs
   \<Longrightarrow> map wallet rs = ws \<and> (\<forall>r \<in> set rs. type r = st \<and> plain r)"
proof (induction ws arbitrary: n rs)
  case Nil
  then show ?case by simp
next
  case (Cons w ws)
  from Cons.prems obtain r rs' where rs: "rs = r # rs'"
    and r: "settle st w (g n w) = Inr r"
    and rest: "map (\<lambda>(i, w). settle st w (g i w)) (enumerate (Suc n) ws) = map Inr rs'"
    by (cases rs) auto
  from Cons.IH[OF rest] settle_outcome[OF r] rs show ?case by simp
qed

lemma fundStage_outcomes:
  assumes "fundStage web3 m gasPrice fundValue ws = Inr fs"
  shows "map wallet fs = ws \<and> (\<forall>r \<in> set fs. type r = Fund \<and> plain r)"
proof -
  from assms have "map (\<lambda>(i, w). fundTask web3 m gasPrice fundValue i w) (enumerate 0 ws) = map Inr fs"
    unfolding fundStage_def by (rule promiseAll_Inr)
  then show ?thesis
    unfolding fundTask_def by (rule settled_tasks)
qed

lemma returnStage_outcomes:
  assumes "returnStage web3 m gasPrice returnValue ws = Inr rs"
  shows "map wallet rs = ws \<and> (\<forall>r \<in> set rs. type r = Return \<and> plain r)"
proof -
  from assms have "map (\<lambda>(j, w). returnTask web3 m gasPrice returnValue j w) (enumerate 0 ws) = map Inr rs"
    unfolding returnStage_def by (rule promiseAll_Inr)
  then show ?thesis
    unfolding returnTask_def by (rule settled_tasks)
qed

lemma processBatch_stages:
  assumes "processBatch web3 m ws fundAmount returnPercentage = Inr (fs, rs)"
  shows "\<exists>gasPrice fundValue returnValue.
           getGasPrice web3 = Inr gasPrice
         \<and> toWei (toString fundAmount) = Inr fundValue
         \<and> toWei (percentOf fundAmount returnPercentage) = Inr returnValue
         \<and> fundStage web3 m gasPrice fundValue ws = Inr fs
         \<and> returnStage web3 m gasPrice returnValue (map wallet (filter success fs)) = Inr rs"
  using assms unfolding processBatch_def
  by (auto split: sum.splits simp: Let_def)

lemma processBatch_outcomes:
  assumes "processBatch web3 m ws fundAmount returnPercentage = Inr (fs, rs)"
  shows "map wallet fs = ws \<and> map wallet rs = map wallet (filter success fs)
         \<and> (\<forall>r \<in> set fs. type r = Fund \<and> plain r) \<and> (\<forall>r \<in> set rs. type r = Return \<and> plain r)"
proof -
  from processBatch_stages[OF assms] obtain gasPrice fundValue returnValue where
    f: "fundStage web3 m gasPrice fundValue ws = Inr fs" and
    r: "returnStage web3 m gasPrice returnValue (map wallet (filter success fs)) = Inr rs"
    by blast
  from fundStage_outcomes[OF f] returnStage_outcomes[OF r] show ?thesis by simp
qed

text \<open>
  C5. When \<open>processBatch\<close> returns, the wallets of \<open>returnResults\<close> are, in order, the
  wallets of the funding outcomes with \<open>success = true\<close>; so every return outcome
  belongs to a wallet with a successful funding outcome, and in a batch of distinct
  wallets a wallet whose funding outcome has \<open>success = false\<close> does not occur in
  \<open>returnResults\<close>.
\<close>

theorem C5_returns_only_for_funded:
  assumes "processBatch web3 m ws fundAmount returnPercentage = Inr (fundResults, returnResults)"
  shows "map wallet returnResults = map wallet (filter success fundResults)
       \<and> (\<forall>r \<in> set returnResults. \<exists>f \<in> set fundResults. success f \<and> wallet f = wallet r)
       \<and> (\<forall>f \<in> set fundResults. \<not> success f \<longrightarrow> distinct ws
            \<longrightarrow> wallet f \<notin> wallet ` set returnResults)"
proof -
  from processBatch_outcomes[OF assms]
  have fs: "map wallet fundResults = ws"
    and rs: "map wallet returnResults = map wallet (filter success fundResults)"
    by simp_all
  have two: "\<forall>r \<in> set returnResults. \<exists>f \<in> set fundResults. success f \<and> wallet f = wallet r"
  proof
    fix r assume "r \<in> set returnResults"
    then have "wallet r \<in> set (map wallet (filter success fundResults))"
      using rs by (metis image_eqI set_map)
    then show "\<exists>f \<in> set fundResults. success f \<and> wallet f = wallet r" by auto
  qed
  have three: "\<forall>f \<in> set fundResults. \<not> success f \<longrightarrow> distinct ws
            \<longrightarrow> wallet f \<notin> wallet ` set returnResults"
  proof (intro ballI impI notI)
    fix f assume f: "f \<in> set fundResults" and nf: "\<not> success f" and d: "distinct ws"
      and mem: "wallet f \<in> wallet ` set returnResults"
    from mem two obtain g where g: "g \<in> set fundResults" "success g" "wallet g = wallet f"
      by force
    from d fs have "inj_on wallet (set fundResults)"
      by (metis distinct_map)
    with f g have "f = g" by (auto dest: inj_onD)
    with nf g show False by simp
  qed
  from rs two three show ?thesis by blast
qed

text \<open>
  C4, as stated: the value of the return transaction is the nominal return value less
  \<open>gasLimit * gasPrice\<close> and is never negative for positive amounts and gas prices.
  With \<open>fundAmount = 0.001\<close> and 95 percent the nominal value is \<open>toWei('0.00095')\<close>; at
  a gas price of 50 gwei the gas costs more than that and the value is negative.
\<close>

theorem C4_counterexample:
  "(0::int) < 50000000000
   \<and> toWei ''0.00095'' = Inr 950000000000000
   \<and> tx_value (returnTx (WalletManager sourceWallet (fromInt 50)) 50000000000 950000000000000 account0)
       = - 100000000000000
   \<and> \<not> 0 \<le> tx_value (returnTx (WalletManager sourceWallet (fromInt 50)) 50000000000 950000000000000 account0)"
  by (simp add: returnTx_def GAS_LIMIT_def unit_eval)

lemma returnTask_accepted:
  assumes "returnTask web3 m gasPrice returnValue j w = Inr r"
  shows "wallet r = w \<and> type r = Return
       \<and> success r = accepted web3 Return j (returnTx m gasPrice returnValue w) (privateKey w)"
  using assms unfolding returnTask_def settle_def signSendConfirm_def accepted_def
  by (auto split: sum.splits)

lemma tasks_by_position:
  assumes eq: "map (\<lambda>(j, w). f j w) (enumerate n ws) = map Inr rs"
  shows "length rs = length ws \<and> (\<forall>j < length rs. f (n + j) (ws ! j) = Inr (rs ! j))"
proof -
  from eq have len: "length rs = length ws"
    by (metis length_enumerate length_map)
  have "f (n + j) (ws ! j) = Inr (rs ! j)" if "j < length rs" for j
  proof -
    from that len have "f (n + j) (ws ! j) = map (\<lambda>(j, w). f j w) (enumerate n ws) ! j"
      by (simp add: nth_enumerate_eq)
    also have "\<dots> = map Inr rs ! j" by (simp only: eq)
    also from that have "\<dots> = Inr (rs ! j)" by simp
    finally show ?thesis .
  qed
  with len show ?thesis by blast
qed

text \<open>
  What a batch that returns has done in its return stage: for the gas price it
  fetched and the value that \<open>toWei\<close> made of \<open>(fundAmount * returnPercentage / 100)\<close>,
  there is one return outcome for each successfully funded wallet, in order, and it
  is the outcome of the return task on that wallet.
\<close>

lemma processBatch_return_tasks:
  assumes "processBatch web3 m ws fundAmount returnPercentage = Inr (fs, rs)"
  shows "\<exists>gasPrice returnValue.
           getGasPrice web3 = Inr gasPrice
         \<and> toWei (percentOf fundAmount returnPercentage) = Inr returnValue
         \<and> length rs = length (filter success fs)
         \<and> (\<forall>j < length rs.
               returnTask web3 m gasPrice returnValue j (wallet (filter success fs ! j))
                 = Inr (rs ! j))"
proof -
  from processBatch_stages[OF assms] obtain gasPrice fundValue returnValue where
    g: "getGasPrice web3 = Inr gasPrice"
    and v: "toWei (percentOf fundAmount returnPercentage) = Inr returnValue"
    and r: "returnStage web3 m gasPrice returnValue (map wallet (filter success fs)) = Inr rs"
    by blast
  from r have "map (\<lambda>(j, w). returnTask web3 m gasPrice returnValue j w)
                 (enumerate 0 (map wallet (filter success fs))) = map Inr rs"
    unfolding returnStage_def by (rule promiseAll_Inr)
  note positions = tasks_by_position[OF this]
  from positions have len: "length rs = length (filter success fs)"
    by simp
  from positions have each: "\<forall>j < length rs.
        returnTask web3 m gasPrice returnValue (0 + j) (map wallet (filter success fs) ! j)
          = Inr (rs ! j)"
    by (rule conjunct2)
  have "returnTask web3 m gasPrice returnValue j (wallet (filter success fs ! j)) = Inr (rs ! j)"
    if "j < length rs" for j
  proof -
    from that len have "map wallet (filter success fs) ! j = wallet (filter success fs ! j)"
      by simp
    moreover from each[rule_format, OF that]
    have "returnTask web3 m gasPrice returnValue j (map wallet (filter success fs) ! j)
            = Inr (rs ! j)" by (simp only: add_0)
    ultimately show ?thesis by (simp only:)
  qed
  with g v len show ?thesis by blast
qed

text \<open>
  C4, amended: when a batch returns, there is for every successfully funded account
  one return outcome, and it records whether one particular transaction went
  through: the transaction from that account whose value is the nominal return value
  (what \<open>toWei\<close> makes of the printed double \<open>fundAmount * returnPercentage / 100\<close>) less
  exactly \<open>gasLimit * gasPrice\<close> at the gas price of the batch. That value is strictly
  less than the nominal value when the gas price is positive, and it is non-negative
  exactly when \<open>gasLimit * gasPrice\<close> does not exceed the nominal value.
\<close>

theorem C4_return_value_less_gas:
  assumes "processBatch web3 m ws fundAmount returnPercentage = Inr (fundResults, returnResults)"
  shows "\<exists>gasPrice returnValue.
           getGasPrice web3 = Inr gasPrice
         \<and> toWei (percentOf fundAmount returnPercentage) = Inr returnValue
         \<and> length returnResults = length (filter success fundResults)
         \<and> (\<forall>j < length returnResults.
               wallet (returnResults ! j) = wallet (filter success fundResults ! j)
             \<and> success (returnResults ! j)
                 = accepted web3 Return j
                     (returnTx m gasPrice returnValue (wallet (returnResults ! j)))
                     (privateKey (wallet (returnResults ! j)))
             \<and> tx_from (returnTx m gasPrice returnValue (wallet (returnResults ! j)))
                 = address (wallet (returnResults ! j))
             \<and> tx_value (returnTx m gasPrice returnValue (wallet (returnResults ! j)))
                 = returnValue - GAS_LIMIT * gasPrice)
         \<and> (0 < gasPrice \<longrightarrow> returnValue - GAS_LIMIT * gasPrice < returnValue)
         \<and> (0 \<le> returnValue - GAS_LIMIT * gasPrice) = (GAS_LIMIT * gasPrice \<le> returnValue)"
proof -
  from processBatch_return_tasks[OF assms] obtain gasPrice returnValue where
    g: "getGasPrice web3 = Inr gasPrice"
    and v: "toWei (percentOf fundAmount returnPercentage) = Inr returnValue"
    and len: "length returnResults = length (filter success fundResults)"
    and each: "\<forall>j < length returnResults.
        returnTask web3 m gasPrice returnValue j (wallet (filter success fundResults ! j))
          = Inr (returnResults ! j)"
    by blast
  have one: "wallet (returnResults ! j) = wallet (filter success fundResults ! j)
       \<and> success (returnResults ! j)
           = accepted web3 Return j
               (returnTx m gasPrice returnValue (wallet (returnResults ! j)))
               (privateKey (wallet (returnResults ! j)))
       \<and> tx_from (returnTx m gasPrice returnValue (wallet (returnResults ! j)))
           = address (wallet (returnResults ! j))
       \<and> tx_value (returnTx m gasPrice returnValue (wallet (returnResults ! j)))
           = returnValue - GAS_LIMIT * gasPrice"
    if "j < length returnResults" for j
  proof -
    from each that
    have "returnTask web3 m gasPrice returnValue j (wallet (filter success fundResults ! j))
            = Inr (returnResults ! j)" by simp
    from returnTask_accepted[OF this] show ?thesis
      by (simp add: returnTx_def)
  qed
  have "0 < GAS_LIMIT" by (simp add: GAS_LIMIT_def)
  then have less: "0 < gasPrice \<longrightarrow> returnValue - GAS_LIMIT * gasPrice < returnValue"
    by simp
  have sign: "(0 \<le> returnValue - GAS_LIMIT * gasPrice) = (GAS_LIMIT * gasPrice \<le> returnValue)"
    by simp
  show ?thesis
  proof (rule exI[of _ gasPrice], rule exI[of _ returnValue], intro conjI allI impI)
    show "getGasPrice web3 = Inr gasPrice" by (rule g)
    show "toWei (percentOf fundAmount returnPercentage) = Inr returnValue" by (rule v)
    show "length returnResults = length (filter success fundResults)" by (rule len)
    show "returnValue - GAS_LIMIT * gasPrice < returnValue" if "0 < gasPrice"
      using less that by simp
    show "(0 \<le> returnValue - GAS_LIMIT * gasPrice) = (GAS_LIMIT * gasPrice \<le> returnValue)"
      by (rule sign)
  qed (use one in blast)+
qed

text \<open>
  The nominal value follows the printed double, not the exact product: \<open>1.1 * 95 / 100\<close>
  prints as \<open>1.0450000000000002\<close>.
\<close>

lemma nominal_value_of_printed_double:
  "toWei ''1.0450000000000002'' = Inr 1045000000000000200"
  by (simp add: unit_eval)

text \<open>
  The return stage of the current script hands the signer transactions with nonce
  \<open>'0'\<close>: when a batch returns, every return outcome records whether the transaction
  \<open>returnTx\<close> of its account went through, and that transaction carries the string
  \<open>'0'\<close> as its nonce.
\<close>

lemma return_stage_nonce_zero:
  assumes "processBatch web3 m ws fundAmount returnPercentage = Inr (fundResults, returnResults)"
  shows "\<exists>gasPrice returnValue.
           length returnResults = length (filter success fundResults)
         \<and> (\<forall>j < length returnResults.
               wallet (returnResults ! j) = wallet (filter success fundResults ! j)
             \<and> success (returnResults ! j)
                 = accepted web3 Return j
                     (returnTx m gasPrice returnValue (wallet (returnResults ! j)))
                     (privateKey (wallet (returnResults ! j)))
             \<and> tx_nonce (returnTx m gasPrice returnValue (wallet (returnResults ! j)))
                 = NonceString ''0'')"
proof -
  from processBatch_return_tasks[OF assms] obtain gasPrice returnValue where
    len: "length returnResults = length (filter success fundResults)"
    and each: "\<forall>j < length returnResults.
        returnTask web3 m gasPrice returnValue j (wallet (filter success fundResults ! j))
          = Inr (returnResults ! j)"
    by blast
  have "wallet (returnResults ! j) = wallet (filter success fundResults ! j)
       \<and> success (returnResults ! j)
           = accepted web3 Return j
               (returnTx m gasPrice returnValue (wallet (returnResults ! j)))
               (privateKey (wallet (returnResults ! j)))
       \<and> tx_nonce (returnTx m gasPrice returnValue (wallet (returnResults ! j)))
           = NonceString ''0''"
    if "j < length returnResults" for j
  proof -
    from each that
    have "returnTask web3 m gasPrice returnValue j (wallet (filter success fundResults ! j))
            = Inr (returnResults ! j)" by simp
    from returnTask_accepted[OF this] show ?thesis
      by (simp add: returnTx_def)
  qed
  with len show ?thesis by blast
qed

text \<open>
  C9. The claim: the transaction that a funded account signs in the return stage uses
  nonce 0, never a value from the sequencer of the source account. The return stage
  of the older script on one funded account, after a funding task that was given
  nonce five: the return task asks the sequencer, is given six, and signs with it;
  the strict node never mines the transaction and the return fails. The return task of
  the current script on the same account signs with \<open>'0'\<close> and succeeds.
\<close>

theorem C9_older_return_nonce_from_sequencer:
  "currentNonce afterFunding = Some 6
   \<and> fst (getNextNonce_older (getTransactionCount strictNode 0) afterFunding) = Inr 6
   \<and> fst (returnStage_older strictNode afterFunding 1000000000 950000000000000000 0 [account0])
       = [\<lparr>success = False, wallet = account0,
           error = JError ''Transaction was not mined within 750 seconds'', type = Return\<rparr>]
   \<and> tx_nonce (returnTx_older afterFunding 1000000000 950000000000000000 6 account0)
       = NonceNumber 6
   \<and> returnTask strictNode afterFunding 1000000000 950000000000000000 0 account0
       = Inr \<lparr>success = True, wallet = account0, error = JUndefined, type = Return\<rparr>"
  by (simp add: afterFunding_def getNextNonce_older_def returnTask_older_def returnTx_older_def
      settle_older_def strictNode_def account0_def batch_eval unit_eval WalletManager_def)

section \<open>Properties of the run controller\<close>

lemma createLoop_length:
  "createLoop create (Finite (of_int c)) i acc = Inr ws
   \<Longrightarrow> int (length ws) = int (length acc) + max 0 (c - int i)"
proof (induction create "Finite (of_int c) :: number" i acc rule: createLoop.induct)
  case (1 create i newWallets)
  note unfold = createLoop.simps[of create "Finite (of_int c)" i newWallets]
  have cond: "lessThan_number (Finite (of_nat i)) (Finite (of_int c)) = (int i < c)"
    by (metis lessThan_number.simps(1) of_int_less_iff of_int_of_nat_eq)
  show ?case
  proof (cases "int i < c")
    case False
    with "1.prems" unfold cond show ?thesis by simp
  next
    case True
    with "1.prems" unfold cond obtain w where w: "create i = Inr w"
      and rest: "createLoop create (Finite (of_int c)) (Suc i) (newWallets @ [w]) = Inr ws"
      by (cases "create i") auto
    from True cond have "lessThan_number (Finite (of_nat i)) (Finite (of_int c))" by simp
    from "1.hyps"[OF this w rest] True show ?thesis by simp
  qed
qed

lemma createWallets_length:
  assumes "createWallets create m (Finite (of_int c)) = Inr (ws, m')"
  shows "int (length ws) = max 0 c"
proof -
  from assms have "createLoop create (Finite (of_int c)) 0 [] = Inr ws"
    unfolding createWallets_def by (auto split: sum.splits)
  from createLoop_length[OF this] show ?thesis by simp
qed

lemma createWallets_batchSize:
  assumes "createWallets create m count = Inr (ws, m')"
  shows "batchSize m' = batchSize m"
  using assms unfolding createWallets_def by (auto split: sum.splits)

lemma message_of_plain:
  "plain r \<Longrightarrow> get_message (error r) = Inr msg \<Longrightarrow> msg = JUndefined"
  by (cases "error r") (auto simp: plain_def)

lemma trackFunding_report:
  "trackFunding fs res = Inr res'
   \<Longrightarrow> successful res' = successful res \<and> created res' = created res
     \<and> failed res' = failed res @ map (entry ''funding'') (filter (\<lambda>r. \<not> success r) fs)"
proof (induction fs arbitrary: res)
  case Nil
  then show ?case by simp
next
  case (Cons r fs)
  show ?case
  proof (cases "success r")
    case True
    with Cons.prems have "trackFunding fs res = Inr res'" by simp
    from Cons.IH[OF this] True show ?thesis by simp
  next
    case False
    with Cons.prems obtain msg where msg: "get_message (error r) = Inr msg"
      and rest: "trackFunding fs (res\<lparr>failed := failed res @
                  [\<lparr>failed_address = address (wallet r), failed_error = msg,
                    failed_stage = ''funding''\<rparr>]\<rparr>) = Inr res'"
      by (cases "get_message (error r)") auto
    from Cons.IH[OF rest] False msg show ?thesis by (simp add: entry_def)
  qed
qed

lemma trackReturns_report:
  "trackReturns rs res = Inr res'
   \<Longrightarrow> successful res' = successful res @ map (\<lambda>r. address (wallet r)) (filter success rs)
     \<and> created res' = created res
     \<and> failed res' = failed res @ map (entry ''returning'') (filter (\<lambda>r. \<not> success r) rs)"
proof (induction rs arbitrary: res)
  case Nil
  then show ?case by simp
next
  case (Cons r rs)
  show ?case
  proof (cases "success r")
    case True
    with Cons.prems
    have "trackReturns rs (res\<lparr>successful := successful res @ [address (wallet r)]\<rparr>) = Inr res'"
      by simp
    from Cons.IH[OF this] True show ?thesis by simp
  next
    case False
    with Cons.prems obtain msg where msg: "get_message (error r) = Inr msg"
      and rest: "trackReturns rs (res\<lparr>failed := failed res @
                  [\<lparr>failed_address = address (wallet r), failed_error = msg,
                    failed_stage = ''returning''\<rparr>]\<rparr>) = Inr res'"
      by (cases "get_message (error r)") auto
    from Cons.IH[OF rest] False msg show ?thesis by (simp add: entry_def)
  qed
qed

lemma trackFunding_messages:
  "trackFunding fs res = Inr res' \<Longrightarrow> r \<in> set fs \<Longrightarrow> \<not> success r
   \<Longrightarrow> \<exists>msg. get_message (error r) = Inr msg"
proof (induction fs arbitrary: res)
  case Nil
  then show ?case by simp
next
  case (Cons a fs)
  then show ?case
    by (cases "get_message (error a)") (auto split: if_splits)
qed

lemma trackReturns_messages:
  "trackReturns rs res = Inr res' \<Longrightarrow> r \<in> set rs \<Longrightarrow> \<not> success r
   \<Longrightarrow> \<exists>msg. get_message (error r) = Inr msg"
proof (induction rs arbitrary: res)
  case Nil
  then show ?case by simp
next
  case (Cons a rs)
  then show ?case
    by (cases "get_message (error a)") (auto split: if_splits)
qed

text \<open>
  A rule for the batch loop: a property that holds at the start and is preserved by
  every iteration that gets through holds of the report and the history returned, for
  an \<open>i\<close> that has reached \<open>walletCount\<close>.
\<close>

lemma batchLoop_rule:
  assumes run: "batchLoop fuel W fundAmount walletCount n i m res h = Some (Inr (res', h'))"
    and init: "I i m res h"
    and step: "\<And>n i m res h ws m' fs rs res2 res3.
       I i m res h \<Longrightarrow> lessThan_number i (fromInt walletCount)
       \<Longrightarrow> createWallets (accountsCreate W n) m
             (Math_min (batchSize m) (minus_number (fromInt walletCount) i)) = Inr (ws, m')
       \<Longrightarrow> processBatch (batchNode W n) m' ws fundAmount 95 = Inr (fs, rs)
       \<Longrightarrow> trackFunding fs (res\<lparr>created := created res + int (length ws)\<rparr>) = Inr res2
       \<Longrightarrow> trackReturns rs res2 = Inr res3
       \<Longrightarrow> I (plus_number i (batchSize m)) m' res3 (h @ rs)"
  shows "\<exists>i m. I i m res' h' \<and> \<not> lessThan_number i (fromInt walletCount)"
  using run init
proof (induction fuel arbitrary: n i m res h)
  case 0
  then show ?case by simp
next
  case (Suc fuel)
  show ?case
  proof (cases "lessThan_number i (fromInt walletCount)")
    case False
    with Suc.prems show ?thesis by auto
  next
    case True
    from Suc.prems(1) True obtain ws m' where
      c: "createWallets (accountsCreate W n) m
            (Math_min (batchSize m) (minus_number (fromInt walletCount) i)) = Inr (ws, m')"
      by (cases "createWallets (accountsCreate W n) m
                   (Math_min (batchSize m) (minus_number (fromInt walletCount) i))")
         (auto simp: Let_def)
    from Suc.prems(1) True c obtain fs rs where
      p: "processBatch (batchNode W n) m' ws fundAmount 95 = Inr (fs, rs)"
      by (cases "processBatch (batchNode W n) m' ws fundAmount 95") (auto simp: Let_def)
    from Suc.prems(1) True c p obtain res2 where
      f: "trackFunding fs (res\<lparr>created := created res + int (length ws)\<rparr>) = Inr res2"
      by (cases "trackFunding fs (res\<lparr>created := created res + int (length ws)\<rparr>)")
         (auto simp: Let_def)
    from Suc.prems(1) True c p f obtain res3 where
      r: "trackReturns rs res2 = Inr res3"
      by (cases "trackReturns rs res2") (auto simp: Let_def)
    from Suc.prems(1) True c p f r have
      rec: "batchLoop fuel W fundAmount walletCount (Suc n) (plus_number i (batchSize m)) m' res3
              (h @ rs) = Some (Inr (res', h'))"
      by (simp add: Let_def)
    from step[OF Suc.prems(2) True c p f r]
    have "I (plus_number i (batchSize m)) m' res3 (h @ rs)" .
    from Suc.IH[OF rec this] show ?thesis .
  qed
qed

text \<open>The loop on a manager whose batch size is an integer.\<close>

lemma integer_step:
  "Math_min (Finite (of_int b)) (minus_number (fromInt walletCount) (Finite (of_int k)))
     = Finite (of_int (min b (walletCount - k)))"
  "plus_number (Finite (of_int k)) (Finite (of_int b)) = Finite (of_int (k + b))"
  "lessThan_number (Finite (of_int k)) (fromInt walletCount) = (k < walletCount)"
  by (simp_all add: fromInt_def of_int_min flip: of_int_diff)

lemma batchLoop_created:
  assumes run: "batchLoop fuel W fundAmount walletCount n (fromInt 0) m res h
                  = Some (Inr (res', h'))"
    and int: "batchSize m = Finite (of_int b)"
    and "created res = 0" and "0 < walletCount"
  shows "created res' = walletCount"
proof -
  define I where "I = (\<lambda>i (m' :: manager) (r :: results) (g :: outcome list).
     batchSize m' = Finite (of_int b)
     \<and> (\<exists>k. i = Finite (of_int k)
           \<and> (if 0 < b then created r = min k walletCount else k < walletCount)))"
  have init: "I (fromInt 0) m res h"
    using assms by (auto simp: I_def fromInt_def)
  have "\<exists>i m'. I i m' res' h' \<and> \<not> lessThan_number i (fromInt walletCount)"
  proof (rule batchLoop_rule[where I = I, OF run init])
    fix n i m0 r g ws m' fs rs res2 res3
    assume inv: "I i m0 r g" and lt: "lessThan_number i (fromInt walletCount)"
      and c: "createWallets (accountsCreate W n) m0
                (Math_min (batchSize m0) (minus_number (fromInt walletCount) i)) = Inr (ws, m')"
      and f: "trackFunding fs (r\<lparr>created := created r + int (length ws)\<rparr>) = Inr res2"
      and t: "trackReturns rs res2 = Inr res3"
    from inv obtain k where b0: "batchSize m0 = Finite (of_int b)" and i: "i = Finite (of_int k)"
      and k: "if 0 < b then created r = min k walletCount else k < walletCount"
      by (auto simp: I_def)
    from lt i have ltk: "k < walletCount" by (simp add: integer_step)
    from c b0 i have "createWallets (accountsCreate W n) m0
                        (Finite (of_int (min b (walletCount - k)))) = Inr (ws, m')"
      by (simp add: integer_step)
    from createWallets_length[OF this]
    have len: "int (length ws) = max 0 (min b (walletCount - k))" .
    from createWallets_batchSize[OF c] b0 have bs: "batchSize m' = Finite (of_int b)" by simp
    from trackFunding_report[OF f] trackReturns_report[OF t]
    have cr: "created res3 = created r + int (length ws)" by simp
    have next_i: "plus_number i (batchSize m0) = Finite (of_int (k + b))"
      using i b0 by (simp add: integer_step)
    show "I (plus_number i (batchSize m0)) m' res3 (g @ rs)"
    proof (cases "0 < b")
      case True
      with k have "created r = min k walletCount" by simp
      with cr len ltk True have "created res3 = min (k + b) walletCount" by auto
      with True have "if 0 < b then created res3 = min (k + b) walletCount
                      else k + b < walletCount" by simp
      with bs next_i show ?thesis unfolding I_def by blast
    next
      case False
      with ltk have "k + b < walletCount" by simp
      with False have "if 0 < b then created res3 = min (k + b) walletCount
                       else k + b < walletCount" by simp
      with bs next_i show ?thesis unfolding I_def by blast
    qed
  qed
  then obtain i m' where "I i m' res' h'" and "\<not> lessThan_number i (fromInt walletCount)"
    by blast
  then show ?thesis
    by (auto simp: I_def integer_step split: if_splits)
qed

text \<open>
  With a positive integer batch size the loop returns, given fuel beyond
  \<open>walletCount\<close>.
\<close>

lemma batchLoop_returns:
  "batchSize m = Finite (of_int b) \<Longrightarrow> 0 < b \<Longrightarrow> nat (walletCount - k) < fuel
   \<Longrightarrow> batchLoop fuel W fundAmount walletCount n (Finite (of_int k)) m res h \<noteq> None"
proof (induction fuel arbitrary: n k m res h)
  case 0
  then show ?case by simp
next
  case (Suc fuel)
  show ?case
  proof (cases "k < walletCount")
    case False
    then show ?thesis by (simp add: integer_step)
  next
    case True
    have rec: "batchLoop fuel W fundAmount walletCount (Suc n) (Finite (of_int (k + b))) m' r g
                 \<noteq> None"
      if "batchSize m' = batchSize m" for m' r g
    proof (rule Suc.IH)
      show "batchSize m' = Finite (of_int b)" using that Suc.prems(1) by simp
      show "0 < b" by (rule Suc.prems(2))
      show "nat (walletCount - (k + b)) < fuel"
        using Suc.prems True by linarith
    qed
    have next_i: "plus_number (Finite (of_int k)) (batchSize m) = Finite (of_int (k + b))"
      using Suc.prems(1) by (simp add: integer_step)
    show ?thesis
      using True rec
      by (auto simp: Let_def integer_step next_i split: sum.splits
               dest: createWallets_batchSize)
  qed
qed

lemma history_reaches_loop:
  assumes "createAndManageWallets_history fuel W m walletCount fundAmount = Some (Inr (res, h))"
  shows "0 < walletCount \<and> gtZero fundAmount
       \<and> (\<exists>gasPrice units. preflightGasPrice W = Inr gasPrice
            \<and> gasUnits W walletCount = Inr units
            \<and> checkMainBalance (getBalance W)
                  (totalRequired fundAmount walletCount (estimatedGasCost gasPrice units))
                = Inr True)
       \<and> batchLoop fuel W fundAmount walletCount 0 (fromInt 0) m
            \<lparr>successful = [], failed = [], created = 0\<rparr> [] = Some (Inr (res, h))"
proof -
  from assms have wc: "0 < walletCount" and pos: "gtZero fundAmount"
    unfolding createAndManageWallets_history_def by (auto split: if_splits)
  with assms have t: "tryBody fuel W m walletCount fundAmount = Some (Inr (res, h))"
    unfolding createAndManageWallets_history_def by (auto split: option.splits sum.splits)
  then obtain gasPrice where g: "preflightGasPrice W = Inr gasPrice"
    unfolding tryBody_def by (cases "preflightGasPrice W") auto
  from t g obtain units where u: "gasUnits W walletCount = Inr units"
    unfolding tryBody_def by (cases "gasUnits W walletCount") auto
  from t g u obtain ok where
    c: "checkMainBalance (getBalance W)
          (totalRequired fundAmount walletCount (estimatedGasCost gasPrice units)) = Inr ok"
    unfolding tryBody_def
    by (cases "checkMainBalance (getBalance W)
                 (totalRequired fundAmount walletCount (estimatedGasCost gasPrice units))") auto
  then have ok: "ok = True"
    unfolding checkMainBalance_def by (auto split: sum.splits if_splits)
  from t g u c have "batchLoop fuel W fundAmount walletCount 0 (fromInt 0) m
            \<lparr>successful = [], failed = [], created = 0\<rparr> [] = Some (Inr (res, h))"
    unfolding tryBody_def by simp
  with wc pos g u c ok show ?thesis by blast
qed

lemma report_has_history:
  assumes "createAndManageWallets fuel W m walletCount fundAmount = Some (Inr res)"
  shows "\<exists>h. createAndManageWallets_history fuel W m walletCount fundAmount = Some (Inr (res, h))"
proof -
  from assms obtain x where
    x: "createAndManageWallets_history fuel W m walletCount fundAmount = Some x"
    and m: "map_sum id fst x = Inr res"
    unfolding createAndManageWallets_def by auto
  from m obtain h where "x = Inr (res, h)"
    by (cases x) auto
  with x show ?thesis by blast
qed

lemma createAndManageWallets_returns:
  assumes "batchSize m = Finite (of_int b)" and "0 < b" and "nat walletCount < fuel"
  shows "createAndManageWallets fuel W m walletCount fundAmount \<noteq> None"
proof -
  have "batchLoop fuel W fundAmount walletCount 0 (Finite (of_int 0)) m
          \<lparr>successful = [], failed = [], created = 0\<rparr> [] \<noteq> None"
    using assms by (intro batchLoop_returns) simp_all
  then have "batchLoop fuel W fundAmount walletCount 0 (fromInt 0) m
          \<lparr>successful = [], failed = [], created = 0\<rparr> [] \<noteq> None"
    by (simp add: fromInt_def)
  then have "tryBody fuel W m walletCount fundAmount \<noteq> None"
    unfolding tryBody_def by (auto split: sum.splits)
  then show ?thesis
    unfolding createAndManageWallets_def createAndManageWallets_history_def
    by (auto split: option.splits sum.splits)
qed

text \<open>
  C6, as stated: for every positive \<open>walletCount\<close>, a run that completes reports
  \<open>created = walletCount\<close>. With the batch size \<open>NaN\<close>, which the entry point passes when
  \<open>BATCH_SIZE\<close> is not numeric, the first batch is empty, the loop ends on
  \<open>NaN < walletCount\<close>, and the run of three wallets returns a report with
  \<open>created = 0\<close>.
\<close>

theorem C6_counterexample:
  "(0::int) < 3
   \<and> createAndManageWallets (Suc (Suc 0)) richWorld (WalletManager sourceWallet NaN) 3 oneEther
       = Some (Inr emptyReport)
   \<and> created emptyReport = 0
   \<and> created emptyReport \<noteq> 3"
  by (simp add: createAndManageWallets_def run_eval batch_eval unit_eval emptyReport_def)

text \<open>
  A batch size of two and a half over-creates: the first batch has three wallets, the
  second one, and the report says \<open>created = 4\<close> for three wallets asked.
\<close>

lemma fractional_batch_overcreates:
  "map_option (map_sum id created)
     (createAndManageWallets (Suc (Suc (Suc 0))) richWorld
        (WalletManager sourceWallet (Finite (5 / 2))) 3 oneEther)
   = Some (Inr 4)"
  by (simp add: createAndManageWallets_def run_eval batch_eval unit_eval)

text \<open>
  C6, amended: for every positive \<open>walletCount\<close> and every manager whose batch size is
  an integer, when \<open>createAndManageWallets\<close> returns a report, the \<open>created\<close> field of the
  report equals \<open>walletCount\<close>.
\<close>

theorem C6_created_equals_walletCount:
  assumes "0 < walletCount"
    and "batchSize m = Finite (of_int b)"
    and "createAndManageWallets fuel W m walletCount fundAmount = Some (Inr res)"
  shows "created res = walletCount"
proof -
  from report_has_history[OF assms(3)] obtain h where
    "createAndManageWallets_history fuel W m walletCount fundAmount = Some (Inr (res, h))" ..
  from history_reaches_loop[OF this]
  have "batchLoop fuel W fundAmount walletCount 0 (fromInt 0) m
            \<lparr>successful = [], failed = [], created = 0\<rparr> [] = Some (Inr (res, h))" by simp
  from batchLoop_created[OF this assms(2) _ assms(1)] show ?thesis by simp
qed




lemma entry_error:
  "plain r \<Longrightarrow> get_message (error r) = Inr msg \<Longrightarrow> failed_error (entry st r) = JUndefined"
  using message_of_plain[of r msg] by (simp add: entry_def)

lemma batchLoop_errors:
  assumes run: "batchLoop fuel W fundAmount walletCount n i m res h = Some (Inr (res', h'))"
    and init: "\<forall>f \<in> set (failed res). failed_error f = JUndefined"
  shows "\<forall>f \<in> set (failed res'). failed_error f = JUndefined"
proof -
  define I where "I = (\<lambda>(i :: number) (m :: manager) (r :: results) (g :: outcome list).
     \<forall>f \<in> set (failed r). failed_error f = JUndefined)"
  have "\<exists>i m. I i m res' h' \<and> \<not> lessThan_number i (fromInt walletCount)"
  proof (rule batchLoop_rule[where I = I, OF run])
    show "I i m res h" using init by (simp add: I_def)
  next
    fix n i m0 r g ws m' fs rs res2 res3
    assume inv: "I i m0 r g"
      and p: "processBatch (batchNode W n) m' ws fundAmount 95 = Inr (fs, rs)"
      and f: "trackFunding fs (r\<lparr>created := created r + int (length ws)\<rparr>) = Inr res2"
      and t: "trackReturns rs res2 = Inr res3"
    from processBatch_outcomes[OF p]
    have pf: "\<forall>x \<in> set fs. plain x" and pr: "\<forall>x \<in> set rs. plain x" by simp_all
    from trackFunding_report[OF f]
    have f2: "failed res2 = failed r @ map (entry ''funding'') (filter (\<lambda>r. \<not> success r) fs)"
      by simp
    from trackReturns_report[OF t]
    have f3: "failed res3 = failed res2 @ map (entry ''returning'') (filter (\<lambda>r. \<not> success r) rs)"
      by simp
    have ef: "failed_error (entry ''funding'' x) = JUndefined" if "x \<in> set fs" "\<not> success x" for x
      using trackFunding_messages[OF f that] pf that(1) by (auto intro: entry_error)
    have er: "failed_error (entry ''returning'' x) = JUndefined" if "x \<in> set rs" "\<not> success x" for x
      using trackReturns_messages[OF t that] pr that(1) by (auto intro: entry_error)
    from inv f2 f3 ef er show "I (plus_number i (batchSize m0)) m' res3 (g @ rs)"
      by (auto simp: I_def)
  qed
  then show ?thesis by (auto simp: I_def)
qed

text \<open>
  C10. In a report that \<open>createAndManageWallets\<close> returns, the \<open>error\<close> field of every
  entry of \<open>failed\<close> is \<open>undefined\<close>: the tasks store \<open>error.message\<close> in their outcome,
  and the tracking loops read \<open>.message\<close> off that value again.
\<close>

theorem C10_recorded_error_is_undefined:
  assumes "createAndManageWallets fuel W m walletCount fundAmount = Some (Inr res)"
  shows "\<forall>f \<in> set (failed res). failed_error f = JUndefined"
proof -
  from report_has_history[OF assms] obtain h where
    "createAndManageWallets_history fuel W m walletCount fundAmount = Some (Inr (res, h))" ..
  from history_reaches_loop[OF this]
  have "batchLoop fuel W fundAmount walletCount 0 (fromInt 0) m
            \<lparr>successful = [], failed = [], created = 0\<rparr> [] = Some (Inr (res, h))" by simp
  from batchLoop_errors[OF this] show ?thesis by simp
qed

section \<open>The concrete runs, evaluated\<close>

lemma batch3:
  "processBatch pickyNode (WalletManager sourceWallet (fromInt 3)) [account0, account1, account2] oneEther 95
     = Inr (fundResults3, returnResults3)"
  by (simp add: batch_eval unit_eval fundResults3_def returnResults3_def WalletManager_def)


lemma run21:
  "createAndManageWallets (Suc (Suc (Suc 0))) richWorld (WalletManager sourceWallet (fromInt 2)) 3 oneEther
     = Some (Inr report21)"
  by (simp add: createAndManageWallets_def run_eval batch_eval unit_eval report21_def)

lemma preflight_required:
  "totalRequired oneEther 3 (estimatedGasCost 1000000000 (21000 * 2 * 3)) = ''30.000126''"
  by (simp add: totalRequired_def estimatedGasCost_def oneEther_def unit_eval)

text \<open>
  With a fractional amount the concatenation has two decimal points and \<open>toWei\<close>
  throws, whatever the balance: \<open>0.001 * 10\<close> prints as \<open>0.01\<close>, and the gas estimate for
  ten wallets at one gwei prints as \<open>0.00042\<close>.
\<close>

lemma preflight_two_points:
  "checkMainBalance (Inr balance) (''0.01'' @ fromWei (1000000000 * (21000 * 2 * 10)))
     = Inl (JError (''[ethjs-unit] while converting number 0.010.00042 to wei,  too many decimal points''))"
  by (simp add: checkMainBalance_def unit_eval)

text \<open>
  C8. The claim: the run aborts before any account is created exactly when the balance
  is below \<open>fundAmount * walletCount\<close> plus the gas reserve. Three wallets of one ether
  at a gas price of one gwei need 3.000126 ether, and the source account holds ten. The
  code joins the strings \<open>3\<close> and \<open>0.000126\<close>, asks for 30.000126 ether and aborts.
\<close>

theorem C8_preflight_concatenates:
  "createAndManageWallets fuel tenEtherWorld (WalletManager sourceWallet (fromInt 3)) 3 oneEther
     = Some (Inl (JError
         ''Wallet creation failed: Insufficient balance. Required: 30.000126 ETH, Available: 10 ETH''))
   \<and> getBalance tenEtherWorld = Inr 10000000000000000000
   \<and> \<not> (10000000000000000000 < (1 * 3 * 10 ^ 18 + 21000 * 2 * 1000000000 * 3 :: int))"
  by (simp add: createAndManageWallets_def run_eval unit_eval oneEther_def)

text \<open>
  The theorems of the run controller and of the batch at the concrete runs: three
  wallets in batches of two, three wallets in one batch, and the batch of the first
  three accounts.
\<close>

theorem C6_witness:
  "(0::int) < 3
   \<and> batchSize (WalletManager sourceWallet (fromInt 2)) = Finite (of_int 2)
   \<and> createAndManageWallets (Suc (Suc (Suc 0))) richWorld (WalletManager sourceWallet (fromInt 2)) 3 oneEther
       = Some (Inr report21)
   \<and> created report21 = 3"
  using C6_created_equals_walletCount[OF _ _ run21, of 2] run21
  by (simp add: WalletManager_def fromInt_def)

theorem C10_witness:
  "createAndManageWallets (Suc (Suc (Suc 0))) richWorld (WalletManager sourceWallet (fromInt 2)) 3 oneEther
       = Some (Inr report21)
   \<and> map failed_error (failed report21) = [JUndefined, JUndefined, JUndefined]"
  using C10_recorded_error_is_undefined[OF run21] run21 by (simp add: report21_def)


theorem C5_witness:
  "processBatch pickyNode (WalletManager sourceWallet (fromInt 3)) [account0, account1, account2] oneEther 95
     = Inr (fundResults3, returnResults3)
   \<and> distinct [account0, account1, account2]
   \<and> map wallet returnResults3 = [account0, account2]
   \<and> account1 \<notin> wallet ` set returnResults3"
  using C5_returns_only_for_funded[OF batch3] batch3
  by (simp add: fundResults3_def returnResults3_def account0_def account1_def account2_def)

text \<open>
  The return stage of the batch of the first three accounts: the gas price is one
  gwei, the nominal value is what \<open>toWei\<close> makes of \<open>0.95\<close>, and the return of the third
  account went through with the value less the gas.
\<close>

theorem C4_witness:
  "processBatch pickyNode (WalletManager sourceWallet (fromInt 3)) [account0, account1, account2]
     oneEther 95 = Inr (fundResults3, returnResults3)
   \<and> getGasPrice pickyNode = Inr 1000000000
   \<and> toWei (percentOf oneEther 95) = Inr 950000000000000000
   \<and> length returnResults3 = 2
   \<and> success (returnResults3 ! 1)
   \<and> accepted pickyNode Return 1
        (returnTx (WalletManager sourceWallet (fromInt 3)) 1000000000 950000000000000000 account2)
        (privateKey account2)
   \<and> tx_value
        (returnTx (WalletManager sourceWallet (fromInt 3)) 1000000000 950000000000000000 account2)
       = 949979000000000000
   \<and> (0::int) < 1000000000"
proof -
  have g: "getGasPrice pickyNode = Inr 1000000000"
    by (simp add: pickyNode_def)
  have v: "toWei (percentOf oneEther 95) = Inr 950000000000000000"
    by (simp add: oneEther_def unit_eval)
  have len: "length returnResults3 = 2" and w1: "wallet (returnResults3 ! 1) = account2"
    and s1: "success (returnResults3 ! 1)"
    by (simp_all add: returnResults3_def)
  from C4_return_value_less_gas[OF batch3] obtain gasPrice returnValue where
    g': "getGasPrice pickyNode = Inr gasPrice"
    and v': "toWei (percentOf oneEther 95) = Inr returnValue"
    and each: "\<forall>j < length returnResults3.
         wallet (returnResults3 ! j) = wallet (filter success fundResults3 ! j)
       \<and> success (returnResults3 ! j)
           = accepted pickyNode Return j
               (returnTx (WalletManager sourceWallet (fromInt 3)) gasPrice returnValue
                  (wallet (returnResults3 ! j)))
               (privateKey (wallet (returnResults3 ! j)))
       \<and> tx_from (returnTx (WalletManager sourceWallet (fromInt 3)) gasPrice returnValue
                     (wallet (returnResults3 ! j)))
           = address (wallet (returnResults3 ! j))
       \<and> tx_value (returnTx (WalletManager sourceWallet (fromInt 3)) gasPrice returnValue
                      (wallet (returnResults3 ! j)))
           = returnValue - GAS_LIMIT * gasPrice"
    by blast
  from g g' v v' have gp: "gasPrice = 1000000000" and rv: "returnValue = 950000000000000000"
    by simp_all
  from len have "1 < length returnResults3" by simp
  note at1 = each[rule_format, OF this]
  from at1 have "success (returnResults3 ! 1)
           = accepted pickyNode Return 1
               (returnTx (WalletManager sourceWallet (fromInt 3)) gasPrice returnValue
                  (wallet (returnResults3 ! 1)))
               (privateKey (wallet (returnResults3 ! 1)))"
    by (rule conjunct2[THEN conjunct1])
  with s1 have acc: "accepted pickyNode Return 1
               (returnTx (WalletManager sourceWallet (fromInt 3)) 1000000000 950000000000000000
                  account2)
               (privateKey account2)"
    unfolding w1 gp rv by simp
  from at1 have "tx_value (returnTx (WalletManager sourceWallet (fromInt 3)) gasPrice returnValue
                      (wallet (returnResults3 ! 1)))
           = returnValue - GAS_LIMIT * gasPrice"
    by (rule conjunct2[THEN conjunct2, THEN conjunct2])
  then have val: "tx_value (returnTx (WalletManager sourceWallet (fromInt 3)) 1000000000
                     950000000000000000 account2) = 949979000000000000"
    unfolding w1 gp rv by (simp add: GAS_LIMIT_def)
  from batch3 g v len s1 acc val show ?thesis by simp
qed

end
